theory Spec2Isabelle
  imports Main "HOL-Library.Word"
begin

unbundle bit_operations_syntax

section \<open>Stack adjustment handling of Dr. Memory (drmemory/stack.c)\<close>

text \<open>
  The target is 32-bit x86: \<open>reg_t\<close>, \<open>app_pc\<close>, \<open>byte *\<close>, \<open>size_t\<close>, \<open>uint\<close> and
  \<open>ptr_int_t\<close> are all 32 bits wide and are modelled as \<open>32 word\<close>. Unsigned comparisons
  are \<open>\<le>\<close> and \<open><\<close> on words, signed ones (\<open>ptr_int_t\<close>, \<open>int\<close>) are \<open>\<le>s\<close> and \<open><s\<close>;
  addition, subtraction and negation wrap around.
\<close>

type_synonym addr = "32 word"

subsection \<open>Data model\<close>

text \<open>The per-byte states of the shadow memory that this file writes.\<close>

datatype shadow_val = SHADOW_UNADDRESSABLE | SHADOW_UNDEFINED | SHADOW_DEFINED

text \<open>\<open>esp_adjust_t\<close> (stack.c, lines 251-260).\<close>

datatype esp_adjust_t =
    ESP_ADJUST_ABSOLUTE
  | ESP_ADJUST_NEGATIVE
  | ESP_ADJUST_POSITIVE
  | ESP_ADJUST_RET_IMMED
  | ESP_ADJUST_AND
  | ESP_ADJUST_INVALID

text \<open>
  The region resolver is made of routines of other files (heap.c, alloc_drmem.c and
  DynamoRIO); they are parameters of the model. \<open>LINUX\<close> is the build flag of the same
  name and \<open>PAGE_SIZE\<close> the platform's page size.
\<close>

record resolver =
  is_in_heap_region :: "addr \<Rightarrow> bool"
  malloc_large_lookup :: "addr \<Rightarrow> (addr \<times> 32 word) option"
  mmap_anon_lookup :: "addr \<Rightarrow> (addr \<times> 32 word) option"
  dr_query_memory :: "addr \<Rightarrow> (addr \<times> 32 word) option"
  LINUX :: bool
  PAGE_SIZE :: "32 word"

text \<open>Calls made to the region resolver, recorded in the order in which they happen.\<close>

datatype lookup =
    Is_in_heap_region addr
  | Malloc_large_lookup addr
  | Mmap_anon_lookup addr
  | Dr_query_memory addr

text \<open>The diagnostics of this file that the claims mention.\<close>

datatype diagnostic =
    Cannot_determine_stack_bounds addr
  | Relative_adjustment_exceeds_threshold "32 word"
  | Pushing_addressable_memory

text \<open>
  The state the routines read and write: the options, the statistics counters, the
  function-local static \<open>num_non_swaps\<close>, the stack pointer of the machine context
  (\<open>mc.esp\<close>), the shadow memory and the application's memory. The last four fields are
  the observable calls to collaborators: region lookups, threshold updates, diagnostics
  and \<open>wait_for_user\<close>. The declaration of the options is not part of stack.c;
  \<open>options.stack_swap_threshold\<close> is taken to be an \<open>int\<close>, the type in which
  \<open>esp_fastpath_update_swap_threshold\<close> receives its new value, and \<open>STATISTICS\<close> to be
  defined.
\<close>

record state =
  stack_swap_threshold :: "32 word"
  check_push :: bool
  pause_at_unaddressable :: bool
  shadow_stack_pointer :: bool
  num_non_swaps :: "32 word"
  adjust_esp_executions :: "32 word"
  stack_swaps :: "32 word"
  stack_swap_triggers :: "32 word"
  push_addressable :: "32 word"
  push_addressable_heap :: "32 word"
  push_addressable_mmap :: "32 word"
  mc_esp :: addr
  shadow :: "addr \<Rightarrow> shadow_val"
  app_memory :: "addr \<Rightarrow> 8 word"
  region_lookups :: "lookup list"
  threshold_updates :: "32 word list"
  diagnostics :: "diagnostic list"
  user_waits :: nat

definition MAX_NUMBER_NON_SWAPS :: "32 word" where
  "MAX_NUMBER_NON_SWAPS = 32"

definition MIN_SWAP_THRESHOLD :: "32 word" where
  "MIN_SWAP_THRESHOLD = 2048"

subsection \<open>Collaborators\<close>

text \<open>
  Modelled from the spec: \<open>shadow_set_range\<close> (shadow.c) is missing from the sources.
  The spec gives \<open>set_range(start, end, state)\<close>; the range is the bytes from \<open>start\<close>
  up to, not including, \<open>end\<close>, as the caller at stack.c lines 218-222 requires (its
  \<open>end\<close> is the first byte being pushed, which must not be marked).
\<close>

definition shadow_set_range ::
  "addr \<Rightarrow> addr \<Rightarrow> shadow_val \<Rightarrow> (addr \<Rightarrow> shadow_val) \<Rightarrow> (addr \<Rightarrow> shadow_val)" where
  "shadow_set_range start end v sh = (\<lambda>a. if start \<le> a \<and> a < end then v else sh a)"

text \<open>The C library's \<open>memset\<close>: \<open>n\<close> bytes starting at \<open>start\<close> receive \<open>c\<close>.\<close>

definition memset :: "addr \<Rightarrow> 8 word \<Rightarrow> 32 word \<Rightarrow> (addr \<Rightarrow> 8 word) \<Rightarrow> (addr \<Rightarrow> 8 word)" where
  "memset start c n m = (\<lambda>a. if a - start < n then c else m a)"

text \<open>
  Modelled from the spec: \<open>update_stack_swap_threshold\<close> is missing from the sources.
  By the spec it is the only operation that changes the threshold, and a threshold change
  triggers the Runtime Patcher; the model sets the option and records the invocation with
  the new value.
\<close>

definition update_stack_swap_threshold :: "32 word \<Rightarrow> state \<Rightarrow> state" where
  "update_stack_swap_threshold new_threshold s =
     s\<lparr>stack_swap_threshold := new_threshold,
       threshold_updates := threshold_updates s @ [new_threshold]\<rparr>"

definition note_lookups :: "lookup list \<Rightarrow> state \<Rightarrow> state" where
  "note_lookups ls s = s\<lparr>region_lookups := region_lookups s @ ls\<rparr>"

definition note_diagnostic :: "diagnostic \<Rightarrow> state \<Rightarrow> state" where
  "note_diagnostic d s = s\<lparr>diagnostics := diagnostics s @ [d]\<rparr>"

subsection \<open>Stack swap threshold adjustments\<close>

text \<open>\<open>check_stack_size_vs_threshold\<close> (lines 67-92). The comparisons are unsigned (\<open>size_t\<close>).\<close>

definition check_stack_size_vs_threshold :: "32 word \<Rightarrow> state \<Rightarrow> state" where
  "check_stack_size_vs_threshold stack_size s =
     (if stack_size < stack_swap_threshold s then
        (let new_thresh0 = MIN_SWAP_THRESHOLD;
             new_thresh = (if new_thresh0 < MIN_SWAP_THRESHOLD then MIN_SWAP_THRESHOLD
                           else new_thresh0)
         in if new_thresh < stack_swap_threshold s
            then update_stack_swap_threshold new_thresh s
            else s)
      else s)"

text \<open>
  \<open>get_stack_region_bounds\<close> (lines 97-110): the first component is \<open>Some (base, size)\<close>
  when the C routine returns true, the second lists the resolver calls it made, in order.
\<close>

definition get_stack_region_bounds ::
  "resolver \<Rightarrow> addr \<Rightarrow> (addr \<times> 32 word) option \<times> lookup list" where
  "get_stack_region_bounds r a =
     (if is_in_heap_region r a then
        (malloc_large_lookup r a, [Is_in_heap_region a, Malloc_large_lookup a])
      else if LINUX r then
        (case mmap_anon_lookup r a of
           Some b \<Rightarrow> (Some b, [Is_in_heap_region a, Mmap_anon_lookup a])
         | None \<Rightarrow>
             (dr_query_memory r a,
              [Is_in_heap_region a, Mmap_anon_lookup a, Dr_query_memory a]))
      else (dr_query_memory r a, [Is_in_heap_region a, Dr_query_memory a]))"

text \<open>
  \<open>check_stack_swap\<close> (lines 112-150). \<open>num_non_swaps\<close> is a static \<open>int\<close>: the test
  \<open>num_non_swaps++ > MAX_NUMBER_NON_SWAPS\<close> compares the value before the increment.
\<close>

definition check_stack_swap :: "resolver \<Rightarrow> addr \<Rightarrow> addr \<Rightarrow> state \<Rightarrow> bool \<times> state" where
  "check_stack_swap r cur_xsp new_xsp s =
     (let s1 = s\<lparr>stack_swap_triggers := stack_swap_triggers s + 1\<rparr>;
          (bounds, calls) = get_stack_region_bounds r cur_xsp;
          s2 = note_lookups calls s1
      in case bounds of
           Some (stack_start, stack_size) \<Rightarrow>
             if stack_start \<le> new_xsp \<and> new_xsp < stack_start + stack_size then
               (let old_count = num_non_swaps s2;
                    s3 = s2\<lparr>num_non_swaps := old_count + 1\<rparr>
                in if MAX_NUMBER_NON_SWAPS <s old_count then
                     (False, update_stack_swap_threshold
                               (stack_swap_threshold s3 + PAGE_SIZE r)
                               (s3\<lparr>num_non_swaps := 0\<rparr>))
                   else (False, s3))
             else (True, s2\<lparr>stack_swaps := stack_swaps s2 + 1\<rparr>)
         | None \<Rightarrow>
             (let s3 = note_diagnostic (Cannot_determine_stack_bounds cur_xsp) s2
              in (True, s3\<lparr>stack_swaps := stack_swaps s3 + 1\<rparr>)))"

text \<open>\<open>handle_push_addressable\<close> (lines 152-232); the result is \<open>handled\<close>.\<close>

definition handle_push_addressable ::
  "resolver \<Rightarrow> addr \<Rightarrow> addr \<Rightarrow> state \<Rightarrow> bool \<times> state" where
  "handle_push_addressable r a start_addr s =
     (let s1 = s\<lparr>push_addressable := push_addressable s + 1\<rparr> in
      if check_push s1 then
        (let is_heap = is_in_heap_region r a;
             s2 = note_lookups [Is_in_heap_region a] s1;
             (bounds, calls) = get_stack_region_bounds r a;
             s3 = note_lookups calls s2
         in case bounds of
              Some (stack_start, stack_size) \<Rightarrow>
                (let s4 = (if is_heap
                           then s3\<lparr>push_addressable_heap := push_addressable_heap s3 + 1\<rparr>
                           else s3\<lparr>push_addressable_mmap := push_addressable_mmap s3 + 1\<rparr>);
                     s5 = s4\<lparr>shadow :=
                             shadow_set_range
                               (if a - PAGE_SIZE r < stack_start then stack_start
                                else a - PAGE_SIZE r)
                               start_addr SHADOW_UNADDRESSABLE (shadow s4)\<rparr>
                 in (True, check_stack_size_vs_threshold stack_size s5))
            | None \<Rightarrow>
                (let s4 = note_diagnostic Pushing_addressable_memory s3
                 in (False, if pause_at_unaddressable s4
                            then s4\<lparr>user_waits := user_waits s4 + 1\<rparr> else s4)))
      else (False, s1))"

subsection \<open>Handling an instruction that writes the stack pointer\<close>

text \<open>
  The test \<open>delta > options.stack_swap_threshold || delta < -options.stack_swap_threshold\<close>
  of lines 308, 318 and 328, on signed 32-bit values.
\<close>

definition exceeds_swap_threshold :: "32 word \<Rightarrow> state \<Rightarrow> bool" where
  "exceeds_swap_threshold delta s =
     (stack_swap_threshold s <s delta \<or> delta <s - stack_swap_threshold s)"

text \<open>
  The tail of \<open>handle_esp_adjust\<close> (lines 337-351), which its three branches share:
  \<open>esp\<close> is the local \<open>mc.esp\<close>.
\<close>

definition esp_adjust_update :: "addr \<Rightarrow> 32 word \<Rightarrow> state \<Rightarrow> state" where
  "esp_adjust_update esp delta s =
     (if delta \<noteq> 0 then
        (if \<not> shadow_stack_pointer s then
           (if delta <s 0
            then s\<lparr>app_memory := memset (esp + delta) 0 (- delta) (app_memory s)\<rparr>
            else s)
         else
           s\<lparr>shadow :=
               shadow_set_range
                 (if 0 <s delta then esp else esp + delta)
                 (if 0 <s delta then esp + delta else esp)
                 (if 0 <s delta then SHADOW_UNADDRESSABLE else SHADOW_UNDEFINED)
                 (shadow s)\<rparr>)
      else s)"

text \<open>\<open>handle_esp_adjust\<close> (lines 296-352).\<close>

definition handle_esp_adjust :: "resolver \<Rightarrow> esp_adjust_t \<Rightarrow> 32 word \<Rightarrow> state \<Rightarrow> state" where
  "handle_esp_adjust r type val s0 =
     (let s = s0\<lparr>adjust_esp_executions := adjust_esp_executions s0 + 1\<rparr>;
          esp = mc_esp s
      in if type = ESP_ADJUST_ABSOLUTE then
           (let delta = val - esp in
            if exceeds_swap_threshold delta s then
              (let (swap, s1) = check_stack_swap r esp val s
               in if swap then s1 else esp_adjust_update esp delta s1)
            else esp_adjust_update esp delta s)
         else if type = ESP_ADJUST_AND then
           (let newval = esp AND val;
                delta = newval - esp in
            if exceeds_swap_threshold delta s then
              (let (swap, s1) = check_stack_swap r esp newval s
               in if swap then s1 else esp_adjust_update esp delta s1)
            else esp_adjust_update esp delta s)
         else
           (let delta = (if type = ESP_ADJUST_NEGATIVE then - val else val);
                s1 = (if exceeds_swap_threshold delta s
                      then note_diagnostic (Relative_adjustment_exceeds_threshold delta) s
                      else s);
                esp1 = (if type = ESP_ADJUST_RET_IMMED then esp + 4 else esp)
            in esp_adjust_update esp1 delta s1))"

subsection \<open>Generated code and the runtime patcher\<close>

text \<open>
  The shared fast path is machine code that stack.c builds from DynamoRIO instructions.
  The model keeps what \<open>esp_fastpath_update_swap_threshold\<close> can see of it: an
  instruction is an opcode with its destination and source operands, or a label;
  operands are built by DynamoRIO's constructors, whose names the datatype keeps, and an
  immediate carries its size, 4 bytes for \<open>OPND_CREATE_INT32\<close> and 1 byte for
  \<open>OPND_CREATE_INT8\<close>.
\<close>

datatype reg_id = REG_NULL | REG_EAX | REG_EBX | REG_ECX | REG_EDX | REG_ESP

datatype opnd_size = OPSZ_1 | OPSZ_4

datatype label =
    loop_pop_repeat | loop_push | loop_push_repeat | loop_done | loop_next_shadow
  | loop_shadow_lookup | shadow_lookup | restore | slowpath

datatype opnd =
    opnd_create_reg reg_id
  | opnd_create_immed_int "32 word" opnd_size
  | opnd_create_base_disp reg_id "32 word" opnd_size
  | spill_slot_opnd nat
  | opnd_create_instr label
  | opnd_create_pc nat

abbreviation OPND_CREATE_INT32 :: "32 word \<Rightarrow> opnd" where
  "OPND_CREATE_INT32 v \<equiv> opnd_create_immed_int v OPSZ_4"

abbreviation OPND_CREATE_INT8 :: "32 word \<Rightarrow> opnd" where
  "OPND_CREATE_INT8 v \<equiv> opnd_create_immed_int v OPSZ_1"

abbreviation OPND_CREATE_MEM8 :: "reg_id \<Rightarrow> 32 word \<Rightarrow> opnd" where
  "OPND_CREATE_MEM8 base disp \<equiv> opnd_create_base_disp base disp OPSZ_1"

abbreviation OPND_CREATE_MEM32 :: "reg_id \<Rightarrow> 32 word \<Rightarrow> opnd" where
  "OPND_CREATE_MEM32 base disp \<equiv> opnd_create_base_disp base disp OPSZ_4"

datatype opcode =
    OP_mov_st | OP_mov_ld | OP_add | OP_sub | OP_cmp | OP_test | OP_neg | OP_inc | OP_dec
  | OP_jmp | OP_jmp_short | OP_jmp_ind
  | OP_jg | OP_jg_short | OP_je_short | OP_jl_short | OP_jge_short | OP_jnz_short
  | OP_other nat

datatype instr =
    Instr opcode "opnd list" "opnd list"
  | INSTR_CREATE_label label

text \<open>
  The \<open>INSTR_CREATE_\<close> macros of DynamoRIO that stack.c uses, with the destinations
  and sources they give an instruction: \<open>cmp\<close> and \<open>test\<close> have two sources and no
  destination, so that \<open>instr_get_src\<close> at 0 and 1 yields the two operands of a \<open>cmp\<close>.
\<close>

abbreviation INSTR_CREATE_mov_st :: "opnd \<Rightarrow> opnd \<Rightarrow> instr" where
  "INSTR_CREATE_mov_st d s \<equiv> Instr OP_mov_st [d] [s]"

abbreviation INSTR_CREATE_mov_ld :: "opnd \<Rightarrow> opnd \<Rightarrow> instr" where
  "INSTR_CREATE_mov_ld d s \<equiv> Instr OP_mov_ld [d] [s]"

abbreviation INSTR_CREATE_add :: "opnd \<Rightarrow> opnd \<Rightarrow> instr" where
  "INSTR_CREATE_add d s \<equiv> Instr OP_add [d] [s, d]"

abbreviation INSTR_CREATE_sub :: "opnd \<Rightarrow> opnd \<Rightarrow> instr" where
  "INSTR_CREATE_sub d s \<equiv> Instr OP_sub [d] [s, d]"

abbreviation INSTR_CREATE_cmp :: "opnd \<Rightarrow> opnd \<Rightarrow> instr" where
  "INSTR_CREATE_cmp s1 s2 \<equiv> Instr OP_cmp [] [s1, s2]"

abbreviation INSTR_CREATE_test :: "opnd \<Rightarrow> opnd \<Rightarrow> instr" where
  "INSTR_CREATE_test s1 s2 \<equiv> Instr OP_test [] [s1, s2]"

abbreviation INSTR_CREATE_neg :: "opnd \<Rightarrow> instr" where
  "INSTR_CREATE_neg d \<equiv> Instr OP_neg [d] [d]"

abbreviation INSTR_CREATE_inc :: "opnd \<Rightarrow> instr" where
  "INSTR_CREATE_inc d \<equiv> Instr OP_inc [d] [d]"

abbreviation INSTR_CREATE_dec :: "opnd \<Rightarrow> instr" where
  "INSTR_CREATE_dec d \<equiv> Instr OP_dec [d] [d]"

abbreviation INSTR_CREATE_jcc :: "opcode \<Rightarrow> opnd \<Rightarrow> instr" where
  "INSTR_CREATE_jcc opc t \<equiv> Instr opc [] [t]"

abbreviation INSTR_CREATE_jmp :: "opnd \<Rightarrow> instr" where
  "INSTR_CREATE_jmp t \<equiv> Instr OP_jmp [] [t]"

abbreviation INSTR_CREATE_jmp_short :: "opnd \<Rightarrow> instr" where
  "INSTR_CREATE_jmp_short t \<equiv> Instr OP_jmp_short [] [t]"

abbreviation INSTR_CREATE_jmp_ind :: "opnd \<Rightarrow> instr" where
  "INSTR_CREATE_jmp_ind t \<equiv> Instr OP_jmp_ind [] [t]"

text \<open>
  What the generator takes from elsewhere: the instruction sequences that the emitters of
  fastpath.c and DynamoRIO insert (those that receive \<open>mi\<close> may depend on
  \<open>eflags_live\<close>), constants of shadow.h, the options and macros it tests, the address
  of the shared slow path and that of the counter \<open>adjust_esp_fastpath\<close>.
\<close>

record codegen =
  insert_save_aflags :: "instr list"
  insert_restore_aflags :: "instr list"
  add_jcc_slowpath :: "bool \<Rightarrow> opcode \<Rightarrow> instr list"
  add_shadow_table_lookup :: "bool \<Rightarrow> instr list"
  dr_insert_clean_call :: "instr list"
  get_shadow_block_size :: "32 word"
  SHADOW_DWORD_UNADDRESSABLE :: "32 word"
  SHADOW_DWORD_UNDEFINED :: "32 word"
  whole_bb_spills_enabled :: bool
  SHADOW_STACK_POINTER :: bool
  shared_slowpath :: bool
  statistics :: bool
  shared_esp_slowpath :: nat
  adjust_esp_fastpath :: "32 word"

text \<open>
  \<open>esp_spill_slot_base\<close> (lines 354-373); DynamoRIO numbers its spill slots from 0.
\<close>

definition SPILL_SLOT_3 :: nat where "SPILL_SLOT_3 = 2"
definition SPILL_SLOT_5 :: nat where "SPILL_SLOT_5 = 4"
definition SPILL_SLOT_6 :: nat where "SPILL_SLOT_6 = 5"

definition esp_spill_slot_base :: "codegen \<Rightarrow> nat" where
  "esp_spill_slot_base g =
     (if whole_bb_spills_enabled g then SPILL_SLOT_6
      else if \<not> SHADOW_STACK_POINTER g then SPILL_SLOT_3
      else SPILL_SLOT_5)"

text \<open>
  The cast \<open>(char)\<close> of lines 955 and 1015: the constant is cut to its low byte, which is
  sign-extended when it becomes the value of an immediate.
\<close>

definition cast_char :: "32 word \<Rightarrow> 32 word" where
  "cast_char v = scast (ucast v :: 8 word)"

text \<open>
  \<open>generate_shared_esp_fastpath_helper\<close> (lines 834-1086): the instruction list it
  appends, in order; \<open>threshold\<close> is \<open>options.stack_swap_threshold\<close> when the code is
  generated. \<open>STATISTICS\<close> is taken to be defined.
\<close>

definition generate_shared_esp_fastpath_helper ::
  "codegen \<Rightarrow> 32 word \<Rightarrow> bool \<Rightarrow> esp_adjust_t \<Rightarrow> instr list" where
  "generate_shared_esp_fastpath_helper g threshold eflags_live type =
     (let reg1 = REG_EDX; reg2 = REG_EBX; reg3 = REG_ECX in
      [INSTR_CREATE_mov_st (spill_slot_opnd (esp_spill_slot_base g + 1))
         (opnd_create_reg REG_ECX),
       INSTR_CREATE_mov_st (spill_slot_opnd (esp_spill_slot_base g))
         (opnd_create_reg REG_EDX)] @
      (if eflags_live then insert_save_aflags g else []) @
      [INSTR_CREATE_mov_ld (opnd_create_reg reg1) (opnd_create_reg REG_ESP)] @
      (if type = ESP_ADJUST_RET_IMMED
       then [INSTR_CREATE_add (opnd_create_reg reg1) (OPND_CREATE_INT8 4)] else []) @
      (if type = ESP_ADJUST_ABSOLUTE then
         [INSTR_CREATE_sub (opnd_create_reg reg3) (opnd_create_reg reg1),
          INSTR_CREATE_cmp (opnd_create_reg reg3) (OPND_CREATE_INT32 threshold)] @
         add_jcc_slowpath g eflags_live OP_jg @
         [INSTR_CREATE_cmp (opnd_create_reg reg3) (OPND_CREATE_INT32 (- threshold))] @
         add_jcc_slowpath g eflags_live OP_jl_short
       else []) @
      [INSTR_CREATE_test (opnd_create_reg reg3) (OPND_CREATE_INT32 0x3)] @
      add_jcc_slowpath g eflags_live OP_jnz_short @
      [INSTR_CREATE_label loop_shadow_lookup,
       INSTR_CREATE_cmp (opnd_create_reg reg3) (OPND_CREATE_INT32 0),
       INSTR_CREATE_jcc OP_jg_short (opnd_create_instr shadow_lookup),
       INSTR_CREATE_jcc OP_je_short (opnd_create_instr loop_done),
       INSTR_CREATE_sub (opnd_create_reg reg1) (OPND_CREATE_INT8 4),
       INSTR_CREATE_label shadow_lookup] @
      add_shadow_table_lookup g eflags_live @
      [INSTR_CREATE_cmp (opnd_create_reg reg3) (OPND_CREATE_INT32 0),
       INSTR_CREATE_jcc OP_jl_short (opnd_create_instr loop_push),
       INSTR_CREATE_neg (opnd_create_reg reg2),
       INSTR_CREATE_add (opnd_create_reg reg2) (opnd_create_reg reg1),
       INSTR_CREATE_add (opnd_create_reg reg2) (OPND_CREATE_INT32 (get_shadow_block_size g)),
       INSTR_CREATE_label loop_pop_repeat,
       INSTR_CREATE_mov_st (OPND_CREATE_MEM8 reg1 0)
         (OPND_CREATE_INT8 (cast_char (SHADOW_DWORD_UNADDRESSABLE g))),
       INSTR_CREATE_inc (opnd_create_reg reg1),
       INSTR_CREATE_sub (opnd_create_reg reg3) (OPND_CREATE_INT8 4),
       INSTR_CREATE_test (opnd_create_reg reg3) (opnd_create_reg reg3),
       INSTR_CREATE_jcc OP_je_short (opnd_create_instr loop_done),
       INSTR_CREATE_cmp (opnd_create_reg reg1) (opnd_create_reg reg2),
       INSTR_CREATE_jcc OP_jge_short (opnd_create_instr loop_next_shadow),
       INSTR_CREATE_jmp_short (opnd_create_instr loop_pop_repeat),
       INSTR_CREATE_label loop_next_shadow,
       INSTR_CREATE_mov_ld (opnd_create_reg reg1) (opnd_create_reg REG_ESP)] @
      (if type = ESP_ADJUST_RET_IMMED
       then [INSTR_CREATE_add (opnd_create_reg reg1) (OPND_CREATE_INT8 4)] else []) @
      [INSTR_CREATE_add (opnd_create_reg reg1) (spill_slot_opnd (esp_spill_slot_base g + 1)),
       INSTR_CREATE_sub (opnd_create_reg reg1) (opnd_create_reg reg3),
       INSTR_CREATE_jmp_short (opnd_create_instr loop_shadow_lookup),
       INSTR_CREATE_label loop_push,
       INSTR_CREATE_neg (opnd_create_reg reg2),
       INSTR_CREATE_add (opnd_create_reg reg2) (opnd_create_reg reg1),
       INSTR_CREATE_label loop_push_repeat,
       INSTR_CREATE_mov_st (OPND_CREATE_MEM8 reg1 0)
         (OPND_CREATE_INT8 (cast_char (SHADOW_DWORD_UNDEFINED g))),
       INSTR_CREATE_dec (opnd_create_reg reg1),
       INSTR_CREATE_add (opnd_create_reg reg3) (OPND_CREATE_INT8 4),
       INSTR_CREATE_test (opnd_create_reg reg3) (opnd_create_reg reg3),
       INSTR_CREATE_jcc OP_je_short (opnd_create_instr loop_done),
       INSTR_CREATE_cmp (opnd_create_reg reg1) (opnd_create_reg reg2),
       INSTR_CREATE_jcc OP_jl_short (opnd_create_instr loop_next_shadow),
       INSTR_CREATE_jmp_short (opnd_create_instr loop_push_repeat),
       INSTR_CREATE_label loop_done] @
      (if statistics g
       then [INSTR_CREATE_inc (OPND_CREATE_MEM32 REG_NULL (adjust_esp_fastpath g))] else []) @
      [INSTR_CREATE_jmp_short (opnd_create_instr restore),
       INSTR_CREATE_label slowpath] @
      (if shared_slowpath g then
         [INSTR_CREATE_mov_ld (opnd_create_reg REG_ECX)
            (spill_slot_opnd (esp_spill_slot_base g + 1)),
          INSTR_CREATE_mov_ld (opnd_create_reg REG_EDX)
            (spill_slot_opnd (esp_spill_slot_base g))] @
         (if type = ESP_ADJUST_NEGATIVE
          then [INSTR_CREATE_neg (opnd_create_reg REG_ECX)] else []) @
         (if eflags_live then insert_restore_aflags g else []) @
         [INSTR_CREATE_jmp (opnd_create_pc (shared_esp_slowpath g))]
       else dr_insert_clean_call g) @
      [INSTR_CREATE_label restore] @
      (if eflags_live then insert_restore_aflags g else []) @
      [INSTR_CREATE_jmp_ind (spill_slot_opnd (esp_spill_slot_base g))])"














subsection \<open>Notions used to state the properties\<close>

text \<open>
  The signed delta that \<open>handle_esp_adjust\<close> computes from its arguments (lines 306, 316
  and 325-326) and the stack pointer it starts from, which for a return with an immediate
  is the one after the pop of the return address (line 334).
\<close>

definition esp_adjust_delta :: "esp_adjust_t \<Rightarrow> 32 word \<Rightarrow> addr \<Rightarrow> 32 word" where
  "esp_adjust_delta type val esp =
     (if type = ESP_ADJUST_ABSOLUTE then val - esp
      else if type = ESP_ADJUST_AND then (esp AND val) - esp
      else if type = ESP_ADJUST_NEGATIVE then - val
      else val)"

definition esp_adjust_base :: "esp_adjust_t \<Rightarrow> addr \<Rightarrow> addr" where
  "esp_adjust_base type esp = (if type = ESP_ADJUST_RET_IMMED then esp + 4 else esp)"

text \<open>
  A confirmed swap: the adjustment is an absolute or a masking one, its delta exceeds the
  threshold and \<open>check_stack_swap\<close> answers true, so that \<open>handle_esp_adjust\<close> returns at
  line 312 or 322.
\<close>

definition is_confirmed_swap :: "resolver \<Rightarrow> esp_adjust_t \<Rightarrow> 32 word \<Rightarrow> state \<Rightarrow> bool" where
  "is_confirmed_swap r type val s =
     ((type = ESP_ADJUST_ABSOLUTE \<or> type = ESP_ADJUST_AND) \<and>
      exceeds_swap_threshold (esp_adjust_delta type val (mc_esp s)) s \<and>
      fst (check_stack_swap r (mc_esp s) (mc_esp s + esp_adjust_delta type val (mc_esp s)) s))"

text \<open>A sequence of suspected swaps, each given by the current and the new stack pointer.\<close>

fun run_swap_checks :: "resolver \<Rightarrow> (addr \<times> addr) list \<Rightarrow> state \<Rightarrow> state" where
  "run_swap_checks r [] s = s"
| "run_swap_checks r ((cur_xsp, new_xsp) # xs) s =
     run_swap_checks r xs (snd (check_stack_swap r cur_xsp new_xsp s))"

text \<open>
  The resolution as the spec words it: the heap-allocation index, then the
  anonymous-mapping index, then the generic query, the first success being returned.
\<close>

definition lookup_in_priority_order :: "resolver \<Rightarrow> addr \<Rightarrow> (addr \<times> 32 word) option" where
  "lookup_in_priority_order r a =
     (case malloc_large_lookup r a of
        Some b \<Rightarrow> Some b
      | None \<Rightarrow>
          (case mmap_anon_lookup r a of
             Some b \<Rightarrow> Some b
           | None \<Rightarrow> dr_query_memory r a))"






subsection \<open>Concrete inputs\<close>

text \<open>
  A Linux resolver that knows one anonymous mapping, \<open>[0xF00, 0x2000)\<close>, and a state with
  threshold 4096 in full-tracking mode whose stack pointer is \<open>0x1000\<close>.
\<close>

definition scenario_resolver :: resolver where
  "scenario_resolver =
     \<lparr>is_in_heap_region = (\<lambda>a. False),
      malloc_large_lookup = (\<lambda>a. None),
      mmap_anon_lookup = (\<lambda>a. if 0xF00 \<le> a \<and> a < 0x2000 then Some (0xF00, 0x1100) else None),
      dr_query_memory = (\<lambda>a. None),
      LINUX = True,
      PAGE_SIZE = 4096\<rparr>"

definition scenario_state :: state where
  "scenario_state =
     \<lparr>stack_swap_threshold = 4096,
      check_push = True,
      pause_at_unaddressable = False,
      shadow_stack_pointer = True,
      num_non_swaps = 0,
      adjust_esp_executions = 0,
      stack_swaps = 0,
      stack_swap_triggers = 0,
      push_addressable = 0,
      push_addressable_heap = 0,
      push_addressable_mmap = 0,
      mc_esp = 0x1000,
      shadow = (\<lambda>a. if 0x1000 \<le> a \<and> a < 0x2000 then SHADOW_DEFINED
                     else SHADOW_UNADDRESSABLE),
      app_memory = (\<lambda>a. 0xAA),
      region_lookups = [],
      threshold_updates = [],
      diagnostics = [],
      user_waits = 0\<rparr>"

text \<open>
  A resolver for an address inside a small heap allocation: the address is in a heap region,
  the large-allocation lookup does not know it, the generic query does.
\<close>

definition small_malloc_resolver :: resolver where
  "small_malloc_resolver =
     \<lparr>is_in_heap_region = (\<lambda>a. 0x8000 \<le> a \<and> a < 0x18000),
      malloc_large_lookup = (\<lambda>a. None),
      mmap_anon_lookup = (\<lambda>a. None),
      dr_query_memory = (\<lambda>a. if 0x8000 \<le> a \<and> a < 0x18000 then Some (0x8000, 0x10000) else None),
      LINUX = True,
      PAGE_SIZE = 4096\<rparr>"





section \<open>Auxiliary facts\<close>

subsection \<open>Machine arithmetic\<close>

lemma sint_minus_nonneg:
  fixes t :: "32 word"
  assumes "0 \<le> sint t"
  shows "sint (- t) = - sint t"
proof -
  have "sint t < 2 ^ 31"
    using sint_lt [of t] by simp
  with assms have "signed_take_bit 31 (- sint t) = - sint t"
    by (intro signed_take_bit_int_eq_self) simp_all
  then show ?thesis
    by (simp add: sint_word_minus)
qed

lemma not_exceeds_swap_threshold:
  assumes "0 \<le> sint (stack_swap_threshold s)"
    and "\<bar>sint delta\<bar> \<le> sint (stack_swap_threshold s)"
  shows "\<not> exceeds_swap_threshold delta s"
proof -
  have "sint (- stack_swap_threshold s) = - sint (stack_swap_threshold s)"
    using assms(1) by (rule sint_minus_nonneg)
  with assms(2) show ?thesis
    by (simp add: exceeds_swap_threshold_def word_sless_alt) arith
qed

lemma uint_plus_sint:
  fixes b d :: "32 word"
  assumes "0 \<le> uint b + sint d" and "uint b + sint d < 2 ^ 32"
  shows "uint (b + d) = uint b + sint d"
proof -
  have "b + d = word_of_int (uint b) + word_of_int (sint d)"
    by simp
  also have "\<dots> = word_of_int (uint b + sint d)"
    by simp
  finally have "uint (b + d) = take_bit 32 (uint b + sint d)"
    by (simp only: uint_word_of_int_eq) simp
  with assms show ?thesis
    by (simp add: take_bit_int_eq_self)
qed

lemma sub_less_sub_iff:
  fixes a b n :: "32 word"
  assumes "n \<le> b"
  shows "(a - n < b - n) = (n \<le> a \<and> a < b)"
proof -
  have bn: "uint (b - n) = uint b - uint n"
    using assms by (simp add: uint_sub_if' word_le_def)
  show ?thesis
  proof (cases "n \<le> a")
    case True
    then have "uint (a - n) = uint a - uint n"
      by (simp add: uint_sub_if' word_le_def)
    with bn True show ?thesis
      by (simp add: word_less_def)
  next
    case False
    then have "uint (a - n) = uint a - uint n + 2 ^ 32"
      by (simp add: uint_sub_if' word_le_def)
    moreover have "uint b < 2 ^ 32"
      using uint_lt2p [of b] by simp
    moreover have "0 \<le> uint a"
      by simp
    ultimately have "\<not> uint (a - n) < uint (b - n)"
      using bn by arith
    with False show ?thesis
      by (simp add: word_less_def)
  qed
qed

lemma memset_growth_interval:
  fixes a b d :: "32 word"
  assumes "0 \<le> uint b + sint d" and "sint d < 0"
  shows "(a - (b + d) < - d) = (b + d \<le> a \<and> a < b)"
proof -
  define n where "n = b + d"
  have lt: "uint b + sint d < 2 ^ 32"
    using assms(2) uint_lt2p [of b] by simp
  have "uint n = uint b + sint d"
    unfolding n_def using assms(1) lt by (rule uint_plus_sint)
  then have le: "n \<le> b"
    using assms(2) by (simp add: word_le_def)
  have d: "- d = b - n"
    by (simp add: n_def)
  show ?thesis
    unfolding d n_def [symmetric] using le by (rule sub_less_sub_iff)
qed


lemma in_bounds_word:
  fixes b sz n :: "32 word"
  assumes "unat b + unat sz < 2 ^ 32"
  shows "(b \<le> n \<and> n < b + sz) = (unat b \<le> unat n \<and> unat n < unat b + unat sz)"
proof -
  have "unat (b + sz) = unat b + unat sz"
    using assms by (simp add: unat_word_ariths)
  then show ?thesis
    by (simp add: word_le_nat_alt word_less_nat_alt)
qed

lemma sint_of_nat_small:
  assumes "k < 2 ^ 31"
  shows "sint (of_nat k :: 32 word) = int k"
proof -
  have "k < 2 ^ 32"
    using assms by simp
  then have "take_bit 32 k = k"
    by (simp add: take_bit_nat_eq_self)
  then have "sint (of_nat k :: 32 word) = signed_take_bit 31 (int k)"
    by (simp add: sint_uint unsigned_of_nat)
  also have "\<dots> = int k"
    using assms by (intro signed_take_bit_int_eq_self) simp_all
  finally show ?thesis .
qed

lemma unat_max_sub:
  fixes a p b :: "32 word"
  assumes "p \<le> a"
  shows "unat (max (a - p) b) = max (unat a - unat p) (unat b)"
proof -
  have "unat (a - p) = unat a - unat p"
    using assms by (simp add: unat_sub)
  then show ?thesis
    by (simp add: max_def word_le_nat_alt)
qed

subsection \<open>What the routines leave alone\<close>

lemma fst_check_stack_swap:
  "fst (check_stack_swap r c n s) =
     (case fst (get_stack_region_bounds r c) of
        None \<Rightarrow> True
      | Some (b, sz) \<Rightarrow> \<not> (b \<le> n \<and> n < b + sz))"
  by (simp add: check_stack_swap_def Let_def split: option.splits prod.splits)

lemma fst_check_stack_swap_state:
  "fst (check_stack_swap r c n s) = fst (check_stack_swap r c n s')"
  by (simp add: fst_check_stack_swap)

lemma check_stack_swap_frame:
  "shadow (snd (check_stack_swap r c n s)) = shadow s"
  "app_memory (snd (check_stack_swap r c n s)) = app_memory s"
  "mc_esp (snd (check_stack_swap r c n s)) = mc_esp s"
  "shadow_stack_pointer (snd (check_stack_swap r c n s)) = shadow_stack_pointer s"
  by (simp_all add: check_stack_swap_def Let_def note_lookups_def note_diagnostic_def
      update_stack_swap_threshold_def split: option.splits prod.splits)

lemma check_stack_swap_stack_swaps:
  "stack_swaps (snd (check_stack_swap r c n s)) =
     (if fst (check_stack_swap r c n s) then stack_swaps s + 1 else stack_swaps s)"
  by (simp add: check_stack_swap_def Let_def note_lookups_def note_diagnostic_def
      update_stack_swap_threshold_def split: option.splits prod.splits)

lemma esp_adjust_update_frame:
  "stack_swaps (esp_adjust_update e d s) = stack_swaps s"
  "region_lookups (esp_adjust_update e d s) = region_lookups s"
  "stack_swap_triggers (esp_adjust_update e d s) = stack_swap_triggers s"
  "stack_swap_threshold (esp_adjust_update e d s) = stack_swap_threshold s"
  "num_non_swaps (esp_adjust_update e d s) = num_non_swaps s"
  "diagnostics (esp_adjust_update e d s) = diagnostics s"
  "threshold_updates (esp_adjust_update e d s) = threshold_updates s"
  by (simp_all add: esp_adjust_update_def)

lemma esp_adjust_update_pointwise:
  assumes "0 \<le> uint b + sint d" and "uint b + sint d < 2 ^ 32"
  shows "shadow_stack_pointer s \<Longrightarrow>
           shadow (esp_adjust_update b d s) a =
             (if b + d \<le> a \<and> a < b then SHADOW_UNDEFINED
              else if b \<le> a \<and> a < b + d then SHADOW_UNADDRESSABLE
              else shadow s a)"
    and "\<not> shadow_stack_pointer s \<Longrightarrow>
           app_memory (esp_adjust_update b d s) a =
             (if b + d \<le> a \<and> a < b then 0 else app_memory s a)"
proof -
  have u: "uint (b + d) = uint b + sint d"
    using assms by (rule uint_plus_sint)
  have pos: "0 <s d \<Longrightarrow> b < b + d"
    using u by (simp add: word_sless_alt word_less_def)
  have neg: "\<not> 0 <s d \<Longrightarrow> b + d \<le> b"
    using u by (simp add: word_sless_alt word_le_def)
  show "shadow_stack_pointer s \<Longrightarrow>
           shadow (esp_adjust_update b d s) a =
             (if b + d \<le> a \<and> a < b then SHADOW_UNDEFINED
              else if b \<le> a \<and> a < b + d then SHADOW_UNADDRESSABLE
              else shadow s a)"
    using pos neg by (auto simp add: esp_adjust_update_def shadow_set_range_def)
  show "\<not> shadow_stack_pointer s \<Longrightarrow>
           app_memory (esp_adjust_update b d s) a =
             (if b + d \<le> a \<and> a < b then 0 else app_memory s a)"
  proof (cases "d <s 0")
    case True
    then have "(a - (b + d) < - d) = (b + d \<le> a \<and> a < b)"
      using assms(1) by (intro memset_growth_interval) (simp_all add: word_sless_alt)
    then show "\<not> shadow_stack_pointer s \<Longrightarrow> ?thesis"
      using True by (auto simp add: esp_adjust_update_def memset_def)
  next
    case False
    then have "0 \<le> sint d"
      by (simp add: word_sless_alt)
    then have "b \<le> b + d"
      using u by (simp add: word_le_def)
    then show "\<not> shadow_stack_pointer s \<Longrightarrow> ?thesis"
      using False by (auto simp add: esp_adjust_update_def)
  qed
qed

lemma exceeds_swap_threshold_executions [simp]:
  "exceeds_swap_threshold d (s\<lparr>adjust_esp_executions := x\<rparr>) = exceeds_swap_threshold d s"
  by (simp add: exceeds_swap_threshold_def)

lemma handle_esp_adjust_not_exceeding:
  assumes "\<not> exceeds_swap_threshold (esp_adjust_delta type val (mc_esp s)) s"
  shows "handle_esp_adjust r type val s =
           esp_adjust_update (esp_adjust_base type (mc_esp s))
             (esp_adjust_delta type val (mc_esp s))
             (s\<lparr>adjust_esp_executions := adjust_esp_executions s + 1\<rparr>)"
  using assms
  by (cases type)
     (simp_all add: handle_esp_adjust_def Let_def esp_adjust_delta_def esp_adjust_base_def)

lemma handle_esp_adjust_relative:
  assumes "type \<noteq> ESP_ADJUST_ABSOLUTE" and "type \<noteq> ESP_ADJUST_AND"
  shows "handle_esp_adjust r type val s =
           esp_adjust_update (esp_adjust_base type (mc_esp s))
             (esp_adjust_delta type val (mc_esp s))
             (if exceeds_swap_threshold (esp_adjust_delta type val (mc_esp s)) s
              then note_diagnostic
                     (Relative_adjustment_exceeds_threshold
                        (esp_adjust_delta type val (mc_esp s)))
                     (s\<lparr>adjust_esp_executions := adjust_esp_executions s + 1\<rparr>)
              else s\<lparr>adjust_esp_executions := adjust_esp_executions s + 1\<rparr>)"
  using assms
  by (cases type)
     (simp_all add: handle_esp_adjust_def Let_def esp_adjust_delta_def esp_adjust_base_def)

lemma handle_esp_adjust_not_swap:
  assumes "\<not> is_confirmed_swap r type val s"
  shows "\<exists>s1. handle_esp_adjust r type val s =
                esp_adjust_update (esp_adjust_base type (mc_esp s))
                  (esp_adjust_delta type val (mc_esp s)) s1 \<and>
              shadow s1 = shadow s \<and> app_memory s1 = app_memory s \<and>
              shadow_stack_pointer s1 = shadow_stack_pointer s \<and>
              stack_swaps s1 = stack_swaps s"
proof -
  let ?s = "s\<lparr>adjust_esp_executions := adjust_esp_executions s + 1\<rparr>"
  let ?d = "esp_adjust_delta type val (mc_esp s)"
  let ?b = "esp_adjust_base type (mc_esp s)"
  consider (rel) "type \<noteq> ESP_ADJUST_ABSOLUTE" "type \<noteq> ESP_ADJUST_AND"
    | (small) "\<not> exceeds_swap_threshold ?d s"
    | (alarm) "type = ESP_ADJUST_ABSOLUTE \<or> type = ESP_ADJUST_AND"
        "exceeds_swap_threshold ?d s"
        "\<not> fst (check_stack_swap r (mc_esp s) (mc_esp s + ?d) s)"
    using assms by (auto simp add: is_confirmed_swap_def)
  then show ?thesis
  proof cases
    case rel
    let ?s1 = "if exceeds_swap_threshold ?d s
               then note_diagnostic (Relative_adjustment_exceeds_threshold ?d) ?s else ?s"
    have "handle_esp_adjust r type val s = esp_adjust_update ?b ?d ?s1"
      using rel by (rule handle_esp_adjust_relative)
    moreover have "shadow ?s1 = shadow s" "app_memory ?s1 = app_memory s"
      "shadow_stack_pointer ?s1 = shadow_stack_pointer s" "stack_swaps ?s1 = stack_swaps s"
      by (simp_all add: note_diagnostic_def)
    ultimately show ?thesis
      by blast
  next
    case small
    have "handle_esp_adjust r type val s = esp_adjust_update ?b ?d ?s"
      using small by (rule handle_esp_adjust_not_exceeding)
    moreover have "shadow ?s = shadow s" "app_memory ?s = app_memory s"
      "shadow_stack_pointer ?s = shadow_stack_pointer s" "stack_swaps ?s = stack_swaps s"
      by simp_all
    ultimately show ?thesis
      by blast
  next
    case alarm
    let ?c = "check_stack_swap r (mc_esp s) (mc_esp s + ?d) ?s"
    have ex: "exceeds_swap_threshold ?d ?s"
      using alarm(2) by (simp add: exceeds_swap_threshold_def)
    have ns: "\<not> fst ?c"
      using alarm(3) fst_check_stack_swap_state [of r "mc_esp s" "mc_esp s + ?d" s ?s]
      by simp
    have "handle_esp_adjust r type val s = esp_adjust_update ?b ?d (snd ?c)"
      using alarm(1) ex ns
      by (auto simp add: handle_esp_adjust_def Let_def esp_adjust_delta_def
          esp_adjust_base_def split: prod.splits)
    moreover have "shadow (snd ?c) = shadow s" "app_memory (snd ?c) = app_memory s"
      "shadow_stack_pointer (snd ?c) = shadow_stack_pointer s"
      "stack_swaps (snd ?c) = stack_swaps s"
      using ns by (simp_all add: check_stack_swap_frame check_stack_swap_stack_swaps)
    ultimately show ?thesis
      by blast
  qed
qed

lemma check_stack_swap_triggers:
  "stack_swap_triggers (snd (check_stack_swap r c n s)) = stack_swap_triggers s + 1"
  by (simp add: check_stack_swap_def Let_def note_lookups_def note_diagnostic_def
      update_stack_swap_threshold_def split: option.splits prod.splits)

lemma handle_esp_adjust_triggers:
  "stack_swap_triggers (handle_esp_adjust r type val s) =
     stack_swap_triggers s +
     (if (type = ESP_ADJUST_ABSOLUTE \<or> type = ESP_ADJUST_AND) \<and>
         exceeds_swap_threshold (esp_adjust_delta type val (mc_esp s)) s
      then 1 else 0)"
proof (cases "(type = ESP_ADJUST_ABSOLUTE \<or> type = ESP_ADJUST_AND) \<and>
         exceeds_swap_threshold (esp_adjust_delta type val (mc_esp s)) s")
  case True
  let ?s = "s\<lparr>adjust_esp_executions := adjust_esp_executions s + 1\<rparr>"
  let ?d = "esp_adjust_delta type val (mc_esp s)"
  let ?c = "check_stack_swap r (mc_esp s) (mc_esp s + ?d) ?s"
  have "handle_esp_adjust r type val s =
          (if fst ?c then snd ?c
           else esp_adjust_update (esp_adjust_base type (mc_esp s)) ?d (snd ?c))"
    using True
    by (auto simp add: handle_esp_adjust_def Let_def esp_adjust_delta_def
        esp_adjust_base_def split: prod.splits)
  then show ?thesis
    using True by (simp add: check_stack_swap_triggers esp_adjust_update_frame)
next
  case False
  then consider "type \<noteq> ESP_ADJUST_ABSOLUTE" "type \<noteq> ESP_ADJUST_AND"
    | "\<not> exceeds_swap_threshold (esp_adjust_delta type val (mc_esp s)) s"
    by blast
  then show ?thesis
  proof cases
    case 1
    then show ?thesis
      by (simp add: handle_esp_adjust_relative esp_adjust_update_frame note_diagnostic_def)
  next
    case 2
    then show ?thesis
      by (simp add: handle_esp_adjust_not_exceeding esp_adjust_update_frame)
  qed
qed

lemma false_alarm_step:
  assumes "\<not> fst (check_stack_swap r c n s)" and "num_non_swaps s = of_nat k" and "k \<le> 32"
  shows "num_non_swaps (snd (check_stack_swap r c n s)) = of_nat (Suc k) \<and>
         stack_swap_threshold (snd (check_stack_swap r c n s)) = stack_swap_threshold s \<and>
         threshold_updates (snd (check_stack_swap r c n s)) = threshold_updates s"
proof -
  have "sint (of_nat k :: 32 word) = int k"
    using assms(3) by (intro sint_of_nat_small) simp
  then have "\<not> MAX_NUMBER_NON_SWAPS <s (of_nat k :: 32 word)"
    using assms(3) by (simp add: MAX_NUMBER_NON_SWAPS_def word_sless_alt)
  then show ?thesis
    using assms(1,2)
    by (auto simp add: check_stack_swap_def Let_def note_lookups_def
        split: option.splits prod.splits if_splits)
qed

lemma false_alarm_bump:
  assumes "\<not> fst (check_stack_swap r c n s)" and "num_non_swaps s = 33"
  shows "num_non_swaps (snd (check_stack_swap r c n s)) = 0 \<and>
         stack_swap_threshold (snd (check_stack_swap r c n s)) =
           stack_swap_threshold s + PAGE_SIZE r \<and>
         threshold_updates (snd (check_stack_swap r c n s)) =
           threshold_updates s @ [stack_swap_threshold s + PAGE_SIZE r]"
proof -
  have "MAX_NUMBER_NON_SWAPS <s (33 :: 32 word)"
    by (simp add: MAX_NUMBER_NON_SWAPS_def word_sless_alt)
  then show ?thesis
    using assms
    by (auto simp add: check_stack_swap_def Let_def note_lookups_def
        update_stack_swap_threshold_def split: option.splits prod.splits if_splits)
qed

lemma run_false_alarms:
  assumes "\<forall>(c, n) \<in> set xs. \<forall>s'. \<not> fst (check_stack_swap r c n s')"
    and "num_non_swaps s = of_nat k" and "k + length xs \<le> 33"
  shows "num_non_swaps (run_swap_checks r xs s) = of_nat (k + length xs) \<and>
         stack_swap_threshold (run_swap_checks r xs s) = stack_swap_threshold s \<and>
         threshold_updates (run_swap_checks r xs s) = threshold_updates s"
  using assms
proof (induction xs arbitrary: s k)
  case Nil
  then show ?case by simp
next
  case (Cons x xs)
  obtain c n where x: "x = (c, n)"
    by (cases x)
  let ?s = "snd (check_stack_swap r c n s)"
  have fa: "\<not> fst (check_stack_swap r c n s)"
    using Cons.prems(1) x by simp
  have k: "k \<le> 32"
    using Cons.prems(3) by simp
  have step: "num_non_swaps ?s = of_nat (Suc k)"
    "stack_swap_threshold ?s = stack_swap_threshold s"
    "threshold_updates ?s = threshold_updates s"
    using false_alarm_step [OF fa Cons.prems(2) k] by simp_all
  have "num_non_swaps (run_swap_checks r xs ?s) = of_nat (Suc k + length xs) \<and>
        stack_swap_threshold (run_swap_checks r xs ?s) = stack_swap_threshold ?s \<and>
        threshold_updates (run_swap_checks r xs ?s) = threshold_updates ?s"
    using Cons.prems(1,3) step(1) by (intro Cons.IH) simp_all
  then show ?case
    using step by (simp add: x)
qed

lemma check_stack_size_vs_threshold_shadow [simp]:
  "shadow (check_stack_size_vs_threshold sz s) = shadow s"
  by (simp add: check_stack_size_vs_threshold_def update_stack_swap_threshold_def Let_def)

lemma handle_push_addressable_resolved:
  assumes "check_push s" and "fst (get_stack_region_bounds r a) = Some (stack_start, stack_size)"
  shows "fst (handle_push_addressable r a start_addr s) \<and>
         shadow (snd (handle_push_addressable r a start_addr s)) =
           shadow_set_range (max (a - PAGE_SIZE r) stack_start) start_addr
             SHADOW_UNADDRESSABLE (shadow s)"
proof -
  obtain calls where "get_stack_region_bounds r a = (Some (stack_start, stack_size), calls)"
    using assms(2) by (cases "get_stack_region_bounds r a") simp
  then show ?thesis
    using assms(1)
    by (auto simp add: handle_push_addressable_def Let_def note_lookups_def max_def)
qed

lemma handle_push_addressable_unresolved:
  assumes "check_push s" and "fst (get_stack_region_bounds r a) = None"
  shows "\<not> fst (handle_push_addressable r a start_addr s) \<and>
         shadow (snd (handle_push_addressable r a start_addr s)) = shadow s"
proof -
  obtain calls where "get_stack_region_bounds r a = (None, calls)"
    using assms(2) by (cases "get_stack_region_bounds r a") simp
  then show ?thesis
    using assms(1)
    by (simp add: handle_push_addressable_def Let_def note_lookups_def note_diagnostic_def)
qed

subsection \<open>Runtime patcher\<close>








lemma helper_relative:
  "type \<noteq> ESP_ADJUST_ABSOLUTE \<Longrightarrow>
   generate_shared_esp_fastpath_helper g thr e type =
   generate_shared_esp_fastpath_helper g thr' e type"
  by (simp add: generate_shared_esp_fastpath_helper_def)















section \<open>Verified properties\<close>

subsection \<open>Swap heuristic\<close>

text \<open>
  C1. The spec has the 33rd consecutive false alarm raise the threshold. The code tests the
  counter before incrementing it (\<open>num_non_swaps++ > MAX_NUMBER_NON_SWAPS\<close>): starting from
  a counter of 0, after 33 false alarms the counter is 33, the threshold is unchanged and
  no threshold update has happened; it is the 34th that adds one page to the threshold,
  resets the counter and invokes the threshold update once. Whether a suspected swap is a
  false alarm does not depend on the state, so the hypotheses state it in the initial one.
\<close>

theorem false_alarms_bump_on_34th:
  assumes "\<forall>(c, n) \<in> set xs. \<not> fst (check_stack_swap r c n s)"
    and "\<not> fst (check_stack_swap r cur_xsp new_xsp s)"
    and "num_non_swaps s = 0"
    and "length xs = 33"
  shows "(let s33 = run_swap_checks r xs s;
              s34 = snd (check_stack_swap r cur_xsp new_xsp s33)
          in num_non_swaps s33 = 33 \<and>
             stack_swap_threshold s33 = stack_swap_threshold s \<and>
             threshold_updates s33 = threshold_updates s \<and>
             num_non_swaps s34 = 0 \<and>
             stack_swap_threshold s34 = stack_swap_threshold s + PAGE_SIZE r \<and>
             threshold_updates s34 =
               threshold_updates s @ [stack_swap_threshold s + PAGE_SIZE r])"
proof -
  let ?s33 = "run_swap_checks r xs s"
  have all: "\<forall>(c, n) \<in> set xs. \<forall>s'. \<not> fst (check_stack_swap r c n s')"
    using assms(1) fst_check_stack_swap_state [where s = s] by fastforce
  have a: "num_non_swaps ?s33 = of_nat (0 + length xs) \<and>
           stack_swap_threshold ?s33 = stack_swap_threshold s \<and>
           threshold_updates ?s33 = threshold_updates s"
    using all by (rule run_false_alarms) (simp_all add: assms)
  then have n: "num_non_swaps ?s33 = 33"
    by (simp add: assms(4))
  have fa: "\<not> fst (check_stack_swap r cur_xsp new_xsp ?s33)"
    using assms(2) fst_check_stack_swap_state [of r cur_xsp new_xsp s ?s33] by simp
  show ?thesis
    using a n false_alarm_bump [OF fa n] by (simp add: Let_def)
qed

text \<open>Thirty-three false alarms inside the mapping \<open>[0xF00, 0x2000)\<close>, then one more.\<close>

theorem false_alarms_bump_on_34th_witness:
  "\<not> fst (check_stack_swap scenario_resolver 0x1800 0xF80 scenario_state) \<and>
   num_non_swaps scenario_state = 0 \<and>
   length (replicate 33 (0x1800 :: 32 word, 0xF80 :: 32 word)) = 33 \<and>
   num_non_swaps (run_swap_checks scenario_resolver (replicate 33 (0x1800, 0xF80))
      scenario_state) = 33 \<and>
   stack_swap_threshold (run_swap_checks scenario_resolver (replicate 33 (0x1800, 0xF80))
      scenario_state) = 4096 \<and>
   threshold_updates (run_swap_checks scenario_resolver (replicate 33 (0x1800, 0xF80))
      scenario_state) = [] \<and>
   stack_swap_threshold (snd (check_stack_swap scenario_resolver 0x1800 0xF80
      (run_swap_checks scenario_resolver (replicate 33 (0x1800, 0xF80)) scenario_state))) = 8192 \<and>
   threshold_updates (snd (check_stack_swap scenario_resolver 0x1800 0xF80
      (run_swap_checks scenario_resolver (replicate 33 (0x1800, 0xF80)) scenario_state))) = [8192]"
proof -
  have fa: "\<not> fst (check_stack_swap scenario_resolver 0x1800 0xF80 scenario_state)"
    by (simp add: fst_check_stack_swap get_stack_region_bounds_def scenario_resolver_def)
  then have h1: "\<forall>(c, n) \<in> set (replicate 33 (0x1800, 0xF80)).
      \<not> fst (check_stack_swap scenario_resolver c n scenario_state)"
    by simp
  have h3: "num_non_swaps scenario_state = 0"
    by (simp add: scenario_state_def)
  have h4: "length (replicate 33 (0x1800 :: 32 word, 0xF80 :: 32 word)) = 33"
    by simp
  have t: "stack_swap_threshold scenario_state = 4096" "PAGE_SIZE scenario_resolver = 4096"
    "threshold_updates scenario_state = []"
    by (simp_all add: scenario_state_def scenario_resolver_def)
  show ?thesis
    using fa h3 false_alarms_bump_on_34th [OF h1 fa h3 h4]
    by (simp add: Let_def t)
qed

text \<open>
  C2. \<open>check_stack_swap\<close> answers "not a swap" when the bounds of the old pointer resolve
  and the candidate lies in \<open>[base, base + size)\<close>, and "swap" when the candidate lies
  outside them or no bounds resolve. The region is taken not to wrap around the end of the
  address space. \<open>handle_esp_adjust\<close> reaches the classifier, which counts a swap trigger,
  exactly when an absolute or a masking adjustment has a delta beyond the threshold.
\<close>

theorem check_stack_swap_classification:
  "(fst (get_stack_region_bounds r cur_xsp) = Some (stack_start, stack_size) \<and>
    unat stack_start + unat stack_size < 2 ^ 32 \<and>
    unat stack_start \<le> unat new_xsp \<and> unat new_xsp < unat stack_start + unat stack_size
      \<longrightarrow> \<not> fst (check_stack_swap r cur_xsp new_xsp s)) \<and>
   (fst (get_stack_region_bounds r cur_xsp) = Some (stack_start, stack_size) \<and>
    unat stack_start + unat stack_size < 2 ^ 32 \<and>
    \<not> (unat stack_start \<le> unat new_xsp \<and> unat new_xsp < unat stack_start + unat stack_size)
      \<longrightarrow> fst (check_stack_swap r cur_xsp new_xsp s)) \<and>
   (fst (get_stack_region_bounds r cur_xsp) = None
      \<longrightarrow> fst (check_stack_swap r cur_xsp new_xsp s)) \<and>
   stack_swap_triggers (handle_esp_adjust r type val s) =
     stack_swap_triggers s +
     (if (type = ESP_ADJUST_ABSOLUTE \<or> type = ESP_ADJUST_AND) \<and>
         exceeds_swap_threshold (esp_adjust_delta type val (mc_esp s)) s
      then 1 else 0)"
proof (cases "fst (get_stack_region_bounds r cur_xsp)")
  case None
  then show ?thesis
    by (simp add: fst_check_stack_swap handle_esp_adjust_triggers)
next
  case (Some bounds)
  show ?thesis
  proof (cases "bounds = (stack_start, stack_size) \<and> unat stack_start + unat stack_size < 2 ^ 32")
    case True
    then have "(stack_start \<le> new_xsp \<and> new_xsp < stack_start + stack_size) =
               (unat stack_start \<le> unat new_xsp \<and>
                unat new_xsp < unat stack_start + unat stack_size)"
      by (intro in_bounds_word) simp
    with Some True show ?thesis
      by (auto simp add: fst_check_stack_swap handle_esp_adjust_triggers)
  next
    case False
    with Some show ?thesis
      by (auto simp add: handle_esp_adjust_triggers)
  qed
qed

theorem check_stack_swap_classification_witness:
  "fst (get_stack_region_bounds scenario_resolver 0x1800) = Some (0xF00, 0x1100) \<and>
   unat (0xF00 :: 32 word) + unat (0x1100 :: 32 word) < 2 ^ 32 \<and>
   unat (0xF00 :: 32 word) \<le> unat (0xF80 :: 32 word) \<and>
   unat (0xF80 :: 32 word) < unat (0xF00 :: 32 word) + unat (0x1100 :: 32 word) \<and>
   \<not> fst (check_stack_swap scenario_resolver 0x1800 0xF80 scenario_state) \<and>
   \<not> unat (0x4000 :: 32 word) < unat (0xF00 :: 32 word) + unat (0x1100 :: 32 word) \<and>
   fst (check_stack_swap scenario_resolver 0x1800 0x4000 scenario_state) \<and>
   fst (get_stack_region_bounds scenario_resolver 0x5000) = None \<and>
   fst (check_stack_swap scenario_resolver 0x5000 0xF80 scenario_state) \<and>
   stack_swap_triggers
     (handle_esp_adjust scenario_resolver ESP_ADJUST_ABSOLUTE 0x8000 scenario_state) = 1"
proof -
  have b1: "fst (get_stack_region_bounds scenario_resolver 0x1800) = Some (0xF00, 0x1100)"
    by (simp add: get_stack_region_bounds_def scenario_resolver_def)
  have b2: "fst (get_stack_region_bounds scenario_resolver 0x5000) = None"
    by (simp add: get_stack_region_bounds_def scenario_resolver_def)
  have ex: "exceeds_swap_threshold
      (esp_adjust_delta ESP_ADJUST_ABSOLUTE 0x8000 (mc_esp scenario_state)) scenario_state"
    "stack_swap_triggers scenario_state = 0"
    by (simp_all add: exceeds_swap_threshold_def esp_adjust_delta_def scenario_state_def
        word_sless_alt)
  show ?thesis
    using b1 b2 ex
      check_stack_swap_classification [where r = scenario_resolver and cur_xsp = "0x1800"
        and stack_start = "0xF00" and stack_size = "0x1100" and new_xsp = "0xF80"
        and s = scenario_state and type = ESP_ADJUST_ABSOLUTE and val = "0x8000"]
      check_stack_swap_classification [where r = scenario_resolver and cur_xsp = "0x1800"
        and stack_start = "0xF00" and stack_size = "0x1100" and new_xsp = "0x4000"
        and s = scenario_state and type = ESP_ADJUST_ABSOLUTE and val = "0x8000"]
      check_stack_swap_classification [where r = scenario_resolver and cur_xsp = "0x5000"
        and stack_start = "0xF00" and stack_size = "0x1100" and new_xsp = "0xF80"
        and s = scenario_state and type = ESP_ADJUST_ABSOLUTE and val = "0x8000"]
    by simp
qed

text \<open>
  C3. On a confirmed swap \<open>handle_esp_adjust\<close> changes neither the shadow memory nor the
  application's memory, and the swap counter \<open>stack_swaps\<close> goes up by exactly one; on
  any other adjustment the counter stays as it was.
\<close>

theorem confirmed_swap_no_mutation:
  "(is_confirmed_swap r type val s \<longrightarrow>
      shadow (handle_esp_adjust r type val s) = shadow s \<and>
      app_memory (handle_esp_adjust r type val s) = app_memory s) \<and>
   stack_swaps (handle_esp_adjust r type val s) =
     stack_swaps s + (if is_confirmed_swap r type val s then 1 else 0)"
proof (cases "is_confirmed_swap r type val s")
  case True
  let ?s = "s\<lparr>adjust_esp_executions := adjust_esp_executions s + 1\<rparr>"
  let ?d = "esp_adjust_delta type val (mc_esp s)"
  let ?n = "mc_esp s + ?d"
  from True have ty: "type = ESP_ADJUST_ABSOLUTE \<or> type = ESP_ADJUST_AND"
    and ex: "exceeds_swap_threshold ?d ?s"
    and sw: "fst (check_stack_swap r (mc_esp s) ?n ?s)"
    using fst_check_stack_swap_state [of r "mc_esp s" ?n s ?s]
    by (simp_all add: is_confirmed_swap_def exceeds_swap_threshold_def)
  have eq: "handle_esp_adjust r type val s = snd (check_stack_swap r (mc_esp s) ?n ?s)"
    using ty ex sw
    by (auto simp add: handle_esp_adjust_def Let_def esp_adjust_delta_def split: prod.splits)
  show ?thesis
    using True sw by (simp add: eq check_stack_swap_frame check_stack_swap_stack_swaps)
next
  case False
  then obtain s1 where "handle_esp_adjust r type val s =
      esp_adjust_update (esp_adjust_base type (mc_esp s))
        (esp_adjust_delta type val (mc_esp s)) s1"
    and "stack_swaps s1 = stack_swaps s"
    using handle_esp_adjust_not_swap by blast
  with False show ?thesis
    by (simp add: esp_adjust_update_frame)
qed

theorem confirmed_swap_no_mutation_witness:
  "is_confirmed_swap scenario_resolver ESP_ADJUST_ABSOLUTE 0x8000 scenario_state \<and>
   shadow (handle_esp_adjust scenario_resolver ESP_ADJUST_ABSOLUTE 0x8000 scenario_state) =
     shadow scenario_state \<and>
   app_memory (handle_esp_adjust scenario_resolver ESP_ADJUST_ABSOLUTE 0x8000 scenario_state) =
     app_memory scenario_state \<and>
   stack_swaps (handle_esp_adjust scenario_resolver ESP_ADJUST_ABSOLUTE 0x8000 scenario_state) = 1"
proof -
  have h: "is_confirmed_swap scenario_resolver ESP_ADJUST_ABSOLUTE 0x8000 scenario_state"
    by (simp add: is_confirmed_swap_def esp_adjust_delta_def exceeds_swap_threshold_def
        fst_check_stack_swap get_stack_region_bounds_def scenario_resolver_def
        scenario_state_def word_sless_alt)
  show ?thesis
    using h confirmed_swap_no_mutation [of scenario_resolver ESP_ADJUST_ABSOLUTE "0x8000"
        scenario_state]
    by (simp add: scenario_state_def)
qed

subsection \<open>Shadow range updates\<close>

text \<open>
  C4, as the spec states it, has every update exclude the granule at the new top of the
  stack. On growth the code marks the range that starts at the new stack pointer: after
  \<open>sub esp, 16\<close> at \<open>esp = 0x1000\<close> the byte at \<open>0xFF0\<close>, the new top of the stack, goes from
  unaddressable to undefined.
\<close>

theorem growth_marks_new_top_of_stack:
  "shadow scenario_state (mc_esp scenario_state - 16) = SHADOW_UNADDRESSABLE \<and>
   shadow (handle_esp_adjust scenario_resolver ESP_ADJUST_NEGATIVE 16 scenario_state)
     (mc_esp scenario_state - 16) = SHADOW_UNDEFINED"
  by (simp add: handle_esp_adjust_def esp_adjust_update_def exceeds_swap_threshold_def
      shadow_set_range_def scenario_state_def Let_def word_sless_alt)

text \<open>
  C4, amended. In full-tracking mode an adjustment that is not a confirmed swap and does not
  wrap around the address space marks the bytes from the new stack pointer up to, not
  including, the old one as undefined when the stack grows, marks the bytes from the old
  stack pointer up to, not including, the new one as unaddressable when it shrinks, and
  leaves every other byte as it was. The new top of the stack is part of the range on
  growth and outside it on shrink.
\<close>

theorem full_tracking_adjust_range:
  assumes "shadow_stack_pointer s"
    and "\<not> is_confirmed_swap r type val s"
    and "0 \<le> uint (esp_adjust_base type (mc_esp s)) + sint (esp_adjust_delta type val (mc_esp s))"
    and "uint (esp_adjust_base type (mc_esp s)) + sint (esp_adjust_delta type val (mc_esp s)) < 2 ^ 32"
  shows "(let old_sp = esp_adjust_base type (mc_esp s);
              new_sp = old_sp + esp_adjust_delta type val (mc_esp s)
          in uint new_sp = uint old_sp + sint (esp_adjust_delta type val (mc_esp s)) \<and>
             shadow (handle_esp_adjust r type val s) a =
               (if new_sp \<le> a \<and> a < old_sp then SHADOW_UNDEFINED
                else if old_sp \<le> a \<and> a < new_sp then SHADOW_UNADDRESSABLE
                else shadow s a))"
proof -
  let ?d = "esp_adjust_delta type val (mc_esp s)"
  let ?b = "esp_adjust_base type (mc_esp s)"
  obtain s1 where h: "handle_esp_adjust r type val s = esp_adjust_update ?b ?d s1"
    and sh: "shadow s1 = shadow s" and sp: "shadow_stack_pointer s1"
    using handle_esp_adjust_not_swap [OF assms(2)] assms(1) by auto
  have u: "uint (?b + ?d) = uint ?b + sint ?d"
    using assms(3,4) by (rule uint_plus_sint)
  have pos: "0 <s ?d \<Longrightarrow> ?b < ?b + ?d"
    using u by (simp add: word_sless_alt word_less_def)
  have neg: "\<not> 0 <s ?d \<Longrightarrow> ?b + ?d \<le> ?b"
    using u by (simp add: word_sless_alt word_le_def)
  have "shadow (esp_adjust_update ?b ?d s1) a =
          (if ?b + ?d \<le> a \<and> a < ?b then SHADOW_UNDEFINED
           else if ?b \<le> a \<and> a < ?b + ?d then SHADOW_UNADDRESSABLE
           else shadow s a)"
    using pos neg
    by (auto simp add: esp_adjust_update_def sp sh shadow_set_range_def)
  with h u show ?thesis
    by (simp add: Let_def)
qed

theorem full_tracking_adjust_range_witness:
  "shadow_stack_pointer scenario_state \<and>
   \<not> is_confirmed_swap scenario_resolver ESP_ADJUST_NEGATIVE 16 scenario_state \<and>
   shadow (handle_esp_adjust scenario_resolver ESP_ADJUST_NEGATIVE 16 scenario_state) 0xFF0 =
     SHADOW_UNDEFINED \<and>
   shadow (handle_esp_adjust scenario_resolver ESP_ADJUST_NEGATIVE 16 scenario_state) 0xFFF =
     SHADOW_UNDEFINED \<and>
   shadow (handle_esp_adjust scenario_resolver ESP_ADJUST_NEGATIVE 16 scenario_state) 0xFEF =
     SHADOW_UNADDRESSABLE \<and>
   shadow (handle_esp_adjust scenario_resolver ESP_ADJUST_NEGATIVE 16 scenario_state) 0x1000 =
     SHADOW_DEFINED"
proof -
  have h1: "shadow_stack_pointer scenario_state"
    by (simp add: scenario_state_def)
  have h2: "\<not> is_confirmed_swap scenario_resolver ESP_ADJUST_NEGATIVE 16 scenario_state"
    by (simp add: is_confirmed_swap_def)
  have d: "esp_adjust_delta ESP_ADJUST_NEGATIVE 16 (mc_esp scenario_state) = - 16"
    "esp_adjust_base ESP_ADJUST_NEGATIVE (mc_esp scenario_state) = 0x1000"
    by (simp_all add: esp_adjust_delta_def esp_adjust_base_def scenario_state_def)
  have h3: "0 \<le> uint (esp_adjust_base ESP_ADJUST_NEGATIVE (mc_esp scenario_state)) +
                 sint (esp_adjust_delta ESP_ADJUST_NEGATIVE 16 (mc_esp scenario_state))"
    by (simp add: d)
  have h4: "uint (esp_adjust_base ESP_ADJUST_NEGATIVE (mc_esp scenario_state)) +
              sint (esp_adjust_delta ESP_ADJUST_NEGATIVE 16 (mc_esp scenario_state)) < 2 ^ 32"
    by (simp add: d)
  have sh: "shadow scenario_state 0xFEF = SHADOW_UNADDRESSABLE"
    "shadow scenario_state 0x1000 = SHADOW_DEFINED"
    by (simp_all add: scenario_state_def)
  show ?thesis
    using h1 h2 sh
      full_tracking_adjust_range [OF h1 h2 h3 h4, of "0xFF0"] full_tracking_adjust_range [OF h1 h2 h3 h4, of "0xFFF"]
      full_tracking_adjust_range [OF h1 h2 h3 h4, of "0xFEF"] full_tracking_adjust_range [OF h1 h2 h3 h4, of "0x1000"]
    by (simp add: d Let_def)
qed

text \<open>
  C5. When the magnitude of the delta is at most the threshold, \<open>handle_esp_adjust\<close> makes
  no call to the region resolver and applies the local update: in full-tracking mode the
  range between the two stack pointers becomes unaddressable on shrink and undefined on
  growth; in lightweight mode the newly claimed range is zero-filled on growth and nothing
  happens on shrink. When the adjustment does not wrap around the address space this reads
  byte by byte: on growth every byte from the new stack pointer up to, not including, the
  old one becomes undefined, or 0 in lightweight mode; on shrink every byte from the old
  stack pointer up to, not including, the new one becomes unaddressable, and lightweight
  mode changes nothing; every other byte keeps its state or contents.
\<close>

theorem within_threshold_local_update:
  assumes "0 \<le> sint (stack_swap_threshold s)"
    and "\<bar>sint (esp_adjust_delta type val (mc_esp s))\<bar> \<le> sint (stack_swap_threshold s)"
  shows "(let delta = esp_adjust_delta type val (mc_esp s);
              base = esp_adjust_base type (mc_esp s);
              s' = handle_esp_adjust r type val s
          in region_lookups s' = region_lookups s \<and>
             stack_swap_triggers s' = stack_swap_triggers s \<and>
             (shadow_stack_pointer s \<longrightarrow>
                app_memory s' = app_memory s \<and>
                shadow s' =
                  (if delta = 0 then shadow s
                   else if 0 <s delta
                   then shadow_set_range base (base + delta) SHADOW_UNADDRESSABLE (shadow s)
                   else shadow_set_range (base + delta) base SHADOW_UNDEFINED (shadow s))) \<and>
             (\<not> shadow_stack_pointer s \<longrightarrow>
                shadow s' = shadow s \<and>
                app_memory s' =
                  (if delta <s 0 then memset (base + delta) 0 (- delta) (app_memory s)
                   else app_memory s)) \<and>
             (0 \<le> uint base + sint delta \<and> uint base + sint delta < 2 ^ 32 \<longrightarrow>
                (\<forall>a. (shadow_stack_pointer s \<longrightarrow>
                        shadow s' a =
                          (if base + delta \<le> a \<and> a < base then SHADOW_UNDEFINED
                           else if base \<le> a \<and> a < base + delta then SHADOW_UNADDRESSABLE
                           else shadow s a)) \<and>
                     (\<not> shadow_stack_pointer s \<longrightarrow>
                        app_memory s' a =
                          (if base + delta \<le> a \<and> a < base then 0 else app_memory s a)))))"
proof -
  let ?d = "esp_adjust_delta type val (mc_esp s)"
  let ?b = "esp_adjust_base type (mc_esp s)"
  let ?s = "s\<lparr>adjust_esp_executions := adjust_esp_executions s + 1\<rparr>"
  have ne: "\<not> exceeds_swap_threshold ?d s"
    using assms by (rule not_exceeds_swap_threshold)
  then have h: "handle_esp_adjust r type val s = esp_adjust_update ?b ?d ?s"
    by (rule handle_esp_adjust_not_exceeding)
  have first: "region_lookups (handle_esp_adjust r type val s) = region_lookups s \<and>
      stack_swap_triggers (handle_esp_adjust r type val s) = stack_swap_triggers s \<and>
      (shadow_stack_pointer s \<longrightarrow>
         app_memory (handle_esp_adjust r type val s) = app_memory s \<and>
         shadow (handle_esp_adjust r type val s) =
           (if ?d = 0 then shadow s
            else if 0 <s ?d
            then shadow_set_range ?b (?b + ?d) SHADOW_UNADDRESSABLE (shadow s)
            else shadow_set_range (?b + ?d) ?b SHADOW_UNDEFINED (shadow s))) \<and>
      (\<not> shadow_stack_pointer s \<longrightarrow>
         shadow (handle_esp_adjust r type val s) = shadow s \<and>
         app_memory (handle_esp_adjust r type val s) =
           (if ?d <s 0 then memset (?b + ?d) 0 (- ?d) (app_memory s)
            else app_memory s))"
    by (simp add: h esp_adjust_update_def)
  have second: "0 \<le> uint ?b + sint ?d \<and> uint ?b + sint ?d < 2 ^ 32 \<longrightarrow>
      (\<forall>a. (shadow_stack_pointer s \<longrightarrow>
              shadow (handle_esp_adjust r type val s) a =
                (if ?b + ?d \<le> a \<and> a < ?b then SHADOW_UNDEFINED
                 else if ?b \<le> a \<and> a < ?b + ?d then SHADOW_UNADDRESSABLE
                 else shadow s a)) \<and>
           (\<not> shadow_stack_pointer s \<longrightarrow>
              app_memory (handle_esp_adjust r type val s) a =
                (if ?b + ?d \<le> a \<and> a < ?b then 0 else app_memory s a)))"
  proof (intro impI allI conjI)
    fix a
    assume w: "0 \<le> uint ?b + sint ?d \<and> uint ?b + sint ?d < 2 ^ 32"
    then have w1: "0 \<le> uint ?b + sint ?d" and w2: "uint ?b + sint ?d < 2 ^ 32"
      by simp_all
    show "shadow (handle_esp_adjust r type val s) a =
            (if ?b + ?d \<le> a \<and> a < ?b then SHADOW_UNDEFINED
             else if ?b \<le> a \<and> a < ?b + ?d then SHADOW_UNADDRESSABLE
             else shadow s a)" if "shadow_stack_pointer s"
      using esp_adjust_update_pointwise(1) [OF w1 w2, of ?s a] that by (simp add: h)
    show "app_memory (handle_esp_adjust r type val s) a =
            (if ?b + ?d \<le> a \<and> a < ?b then 0 else app_memory s a)"
      if "\<not> shadow_stack_pointer s"
      using esp_adjust_update_pointwise(2) [OF w1 w2, of ?s a] that by (simp add: h)
  qed
  show ?thesis
    unfolding Let_def using first second by blast
qed

text \<open>
  A shrink by 16 in full-tracking mode, then a growth by 2 in lightweight mode: the two
  bytes below the old stack pointer become 0 and their neighbours keep their contents.
\<close>

theorem within_threshold_local_update_witness:
  "0 \<le> sint (stack_swap_threshold scenario_state) \<and>
   \<bar>sint (esp_adjust_delta ESP_ADJUST_POSITIVE 16 (mc_esp scenario_state))\<bar>
     \<le> sint (stack_swap_threshold scenario_state) \<and>
   shadow_stack_pointer scenario_state \<and>
   region_lookups (handle_esp_adjust scenario_resolver ESP_ADJUST_POSITIVE 16 scenario_state) = [] \<and>
   shadow (handle_esp_adjust scenario_resolver ESP_ADJUST_POSITIVE 16 scenario_state) =
     shadow_set_range 0x1000 0x1010 SHADOW_UNADDRESSABLE (shadow scenario_state) \<and>
   shadow (handle_esp_adjust scenario_resolver ESP_ADJUST_POSITIVE 16 scenario_state) 0x1000 =
     SHADOW_UNADDRESSABLE \<and>
   shadow (handle_esp_adjust scenario_resolver ESP_ADJUST_POSITIVE 16 scenario_state) 0x100F =
     SHADOW_UNADDRESSABLE \<and>
   shadow (handle_esp_adjust scenario_resolver ESP_ADJUST_POSITIVE 16 scenario_state) 0x1010 =
     SHADOW_DEFINED \<and>
   \<bar>sint (esp_adjust_delta ESP_ADJUST_NEGATIVE 2
       (mc_esp (scenario_state\<lparr>shadow_stack_pointer := False\<rparr>)))\<bar>
     \<le> sint (stack_swap_threshold (scenario_state\<lparr>shadow_stack_pointer := False\<rparr>)) \<and>
   region_lookups (handle_esp_adjust scenario_resolver ESP_ADJUST_NEGATIVE 2
      (scenario_state\<lparr>shadow_stack_pointer := False\<rparr>)) = [] \<and>
   shadow (handle_esp_adjust scenario_resolver ESP_ADJUST_NEGATIVE 2
      (scenario_state\<lparr>shadow_stack_pointer := False\<rparr>)) = shadow scenario_state \<and>
   app_memory (handle_esp_adjust scenario_resolver ESP_ADJUST_NEGATIVE 2
      (scenario_state\<lparr>shadow_stack_pointer := False\<rparr>)) 0xFFD = 0xAA \<and>
   app_memory (handle_esp_adjust scenario_resolver ESP_ADJUST_NEGATIVE 2
      (scenario_state\<lparr>shadow_stack_pointer := False\<rparr>)) 0xFFE = 0 \<and>
   app_memory (handle_esp_adjust scenario_resolver ESP_ADJUST_NEGATIVE 2
      (scenario_state\<lparr>shadow_stack_pointer := False\<rparr>)) 0xFFF = 0 \<and>
   app_memory (handle_esp_adjust scenario_resolver ESP_ADJUST_NEGATIVE 2
      (scenario_state\<lparr>shadow_stack_pointer := False\<rparr>)) 0x1000 = 0xAA"
proof -
  let ?l = "scenario_state\<lparr>shadow_stack_pointer := False\<rparr>"
  have h1: "0 \<le> sint (stack_swap_threshold scenario_state)"
    by (simp add: scenario_state_def)
  have h2: "\<bar>sint (esp_adjust_delta ESP_ADJUST_POSITIVE 16 (mc_esp scenario_state))\<bar>
              \<le> sint (stack_swap_threshold scenario_state)"
    by (simp add: scenario_state_def esp_adjust_delta_def)
  have h3: "shadow_stack_pointer scenario_state" "region_lookups scenario_state = []"
    "mc_esp scenario_state = 0x1000" "shadow scenario_state 0x1010 = SHADOW_DEFINED"
    by (simp_all add: scenario_state_def)
  have l1: "0 \<le> sint (stack_swap_threshold ?l)"
    by (simp add: scenario_state_def)
  have l2: "\<bar>sint (esp_adjust_delta ESP_ADJUST_NEGATIVE 2 (mc_esp ?l))\<bar>
              \<le> sint (stack_swap_threshold ?l)"
    by (simp add: scenario_state_def esp_adjust_delta_def)
  have l3: "\<not> shadow_stack_pointer ?l" "region_lookups ?l = []" "mc_esp ?l = 0x1000"
    "shadow ?l = shadow scenario_state" "app_memory ?l = (\<lambda>a. 0xAA)"
    by (simp_all add: scenario_state_def)
  have d: "esp_adjust_delta ESP_ADJUST_NEGATIVE 2 0x1000 = - 2"
    "esp_adjust_base ESP_ADJUST_NEGATIVE 0x1000 = 0x1000"
    "esp_adjust_delta ESP_ADJUST_POSITIVE 16 0x1000 = 16"
    "esp_adjust_base ESP_ADJUST_POSITIVE 0x1000 = 0x1000"
    by (simp_all add: esp_adjust_delta_def esp_adjust_base_def)
  note full = within_threshold_local_update [OF h1 h2, of scenario_resolver]
  note light = within_threshold_local_update [OF l1 l2, of scenario_resolver]
  have a: "region_lookups (handle_esp_adjust scenario_resolver ESP_ADJUST_POSITIVE 16
        scenario_state) = []"
    "shadow (handle_esp_adjust scenario_resolver ESP_ADJUST_POSITIVE 16 scenario_state) =
       shadow_set_range 0x1000 0x1010 SHADOW_UNADDRESSABLE (shadow scenario_state)"
    using full h3 by (simp_all add: Let_def d word_sless_alt)
  have w: "0 \<le> uint (esp_adjust_base ESP_ADJUST_NEGATIVE (mc_esp ?l)) +
                sint (esp_adjust_delta ESP_ADJUST_NEGATIVE 2 (mc_esp ?l)) \<and>
           uint (esp_adjust_base ESP_ADJUST_NEGATIVE (mc_esp ?l)) +
                sint (esp_adjust_delta ESP_ADJUST_NEGATIVE 2 (mc_esp ?l)) < 2 ^ 32"
    by (simp add: l3 d)
  have b: "region_lookups (handle_esp_adjust scenario_resolver ESP_ADJUST_NEGATIVE 2 ?l) =
       region_lookups ?l"
    "shadow (handle_esp_adjust scenario_resolver ESP_ADJUST_NEGATIVE 2 ?l) = shadow ?l"
    using light l3(1) unfolding Let_def by blast+
  have "\<forall>a. app_memory (handle_esp_adjust scenario_resolver ESP_ADJUST_NEGATIVE 2 ?l) a =
       (if esp_adjust_base ESP_ADJUST_NEGATIVE (mc_esp ?l) +
             esp_adjust_delta ESP_ADJUST_NEGATIVE 2 (mc_esp ?l) \<le> a \<and>
           a < esp_adjust_base ESP_ADJUST_NEGATIVE (mc_esp ?l)
        then 0 else app_memory ?l a)"
    using light l3(1) w unfolding Let_def by blast
  then have c: "\<And>a. app_memory
       (handle_esp_adjust scenario_resolver ESP_ADJUST_NEGATIVE 2 ?l) a =
       (if 0xFFE \<le> a \<and> a < 0x1000 then 0 else 0xAA)"
    by (simp add: l3 d)
  show ?thesis
    using h1 h2 h3 l2 a by (simp add: b c l3 shadow_set_range_def)
qed

text \<open>
  C10. For an adjustment that is neither absolute nor a masking one, \<open>handle_esp_adjust\<close>
  never calls the region resolver and never counts a swap trigger or a swap, however large
  the delta is: a delta beyond the threshold adds one warning, and the update of the
  shadow memory (or the zero-fill) is the ordinary one. Only the absolute and the masking
  kinds can therefore be classified as swaps. The generated fast path agrees: the fragment
  of such a kind is the same whatever the threshold, so it holds no comparison with it.
\<close>

theorem relative_adjust_never_swap:
  assumes "type \<noteq> ESP_ADJUST_ABSOLUTE" and "type \<noteq> ESP_ADJUST_AND"
  shows "(let delta = (if type = ESP_ADJUST_NEGATIVE then - val else val);
              base = (if type = ESP_ADJUST_RET_IMMED then mc_esp s + 4 else mc_esp s);
              s' = handle_esp_adjust r type val s
          in region_lookups s' = region_lookups s \<and>
             stack_swap_triggers s' = stack_swap_triggers s \<and>
             stack_swaps s' = stack_swaps s \<and>
             num_non_swaps s' = num_non_swaps s \<and>
             stack_swap_threshold s' = stack_swap_threshold s \<and>
             diagnostics s' =
               (if exceeds_swap_threshold delta s
                then diagnostics s @ [Relative_adjustment_exceeds_threshold delta]
                else diagnostics s) \<and>
             (shadow_stack_pointer s \<longrightarrow>
                app_memory s' = app_memory s \<and>
                shadow s' =
                  (if delta = 0 then shadow s
                   else if 0 <s delta
                   then shadow_set_range base (base + delta) SHADOW_UNADDRESSABLE (shadow s)
                   else shadow_set_range (base + delta) base SHADOW_UNDEFINED (shadow s))) \<and>
             (\<not> shadow_stack_pointer s \<longrightarrow>
                shadow s' = shadow s \<and>
                app_memory s' =
                  (if delta <s 0 then memset (base + delta) 0 (- delta) (app_memory s)
                   else app_memory s)) \<and>
             generate_shared_esp_fastpath_helper g threshold eflags_live type =
               generate_shared_esp_fastpath_helper g threshold' eflags_live type)"
  using assms helper_relative [of type g threshold eflags_live threshold']
  by (simp add: handle_esp_adjust_relative esp_adjust_update_def Let_def note_diagnostic_def
      esp_adjust_delta_def esp_adjust_base_def)

theorem relative_adjust_never_swap_witness:
  "exceeds_swap_threshold (- 0x10000) (scenario_state\<lparr>mc_esp := 0x20000\<rparr>) \<and>
   region_lookups (handle_esp_adjust scenario_resolver ESP_ADJUST_NEGATIVE 0x10000
      (scenario_state\<lparr>mc_esp := 0x20000\<rparr>)) = [] \<and>
   stack_swaps (handle_esp_adjust scenario_resolver ESP_ADJUST_NEGATIVE 0x10000
      (scenario_state\<lparr>mc_esp := 0x20000\<rparr>)) = 0 \<and>
   diagnostics (handle_esp_adjust scenario_resolver ESP_ADJUST_NEGATIVE 0x10000
      (scenario_state\<lparr>mc_esp := 0x20000\<rparr>)) =
     [Relative_adjustment_exceeds_threshold (- 0x10000)] \<and>
   shadow (handle_esp_adjust scenario_resolver ESP_ADJUST_NEGATIVE 0x10000
      (scenario_state\<lparr>mc_esp := 0x20000\<rparr>)) =
     shadow_set_range 0x10000 0x20000 SHADOW_UNDEFINED (shadow scenario_state)"
proof -
  have h1: "ESP_ADJUST_NEGATIVE \<noteq> ESP_ADJUST_ABSOLUTE"
    and h2: "ESP_ADJUST_NEGATIVE \<noteq> ESP_ADJUST_AND"
    by simp_all
  have ex: "exceeds_swap_threshold (- 0x10000) (scenario_state\<lparr>mc_esp := 0x20000\<rparr>)"
    by (simp add: exceeds_swap_threshold_def scenario_state_def word_sless_alt)
  have st: "shadow_stack_pointer scenario_state" "region_lookups scenario_state = []"
    "stack_swaps scenario_state = 0" "diagnostics scenario_state = []"
    by (simp_all add: scenario_state_def)
  show ?thesis
    using ex st
      relative_adjust_never_swap [OF h1 h2, where val = "0x10000"
        and s = "scenario_state\<lparr>mc_esp := 0x20000\<rparr>" and r = scenario_resolver]
    by (simp add: Let_def word_sless_alt)
qed

subsection \<open>Region resolution\<close>

text \<open>
  C6, as the spec states it, is a chain of three lookups that returns the first success.
  For an address in a heap region the code asks the large-allocation index only: an address
  in a small allocation is not resolved, although the generic query knows its region.
\<close>

theorem small_malloc_not_resolved:
  "fst (get_stack_region_bounds small_malloc_resolver 0x9000) = None \<and>
   lookup_in_priority_order small_malloc_resolver 0x9000 = Some (0x8000, 0x10000)"
  by (simp add: get_stack_region_bounds_def lookup_in_priority_order_def
      small_malloc_resolver_def)

text \<open>
  C6, amended. For an address in a heap region the result is that of the large-allocation
  lookup alone. For any other address the large-allocation lookup is not made and the
  result is the first success of the anonymous-mapping lookup (on Linux) and the generic
  query. On Linux the result is that of the three lookups tried in priority order whenever
  the heap-region test and the large-allocation lookup agree or the other two lookups fail.
\<close>

theorem get_stack_region_bounds_dispatch:
  "(is_in_heap_region r a \<longrightarrow>
      get_stack_region_bounds r a =
        (malloc_large_lookup r a, [Is_in_heap_region a, Malloc_large_lookup a])) \<and>
   (\<not> is_in_heap_region r a \<longrightarrow>
      fst (get_stack_region_bounds r a) =
        (case (if LINUX r then mmap_anon_lookup r a else None) of
           Some b \<Rightarrow> Some b
         | None \<Rightarrow> dr_query_memory r a) \<and>
      Malloc_large_lookup a \<notin> set (snd (get_stack_region_bounds r a))) \<and>
   (LINUX r \<and>
    (is_in_heap_region r a \<longrightarrow>
       malloc_large_lookup r a \<noteq> None \<or>
       (mmap_anon_lookup r a = None \<and> dr_query_memory r a = None)) \<and>
    (\<not> is_in_heap_region r a \<longrightarrow> malloc_large_lookup r a = None) \<longrightarrow>
      fst (get_stack_region_bounds r a) = lookup_in_priority_order r a)"
  by (auto simp add: get_stack_region_bounds_def lookup_in_priority_order_def
      split: option.splits)

theorem get_stack_region_bounds_dispatch_witness:
  "\<not> is_in_heap_region scenario_resolver 0x1800 \<and> LINUX scenario_resolver \<and>
   malloc_large_lookup scenario_resolver 0x1800 = None \<and>
   fst (get_stack_region_bounds scenario_resolver 0x1800) =
     lookup_in_priority_order scenario_resolver 0x1800 \<and>
   Malloc_large_lookup 0x1800 \<notin> set (snd (get_stack_region_bounds scenario_resolver 0x1800)) \<and>
   is_in_heap_region small_malloc_resolver 0x9000 \<and>
   get_stack_region_bounds small_malloc_resolver 0x9000 =
     (None, [Is_in_heap_region 0x9000, Malloc_large_lookup 0x9000])"
proof -
  have h: "\<not> is_in_heap_region scenario_resolver 0x1800" "LINUX scenario_resolver"
    "malloc_large_lookup scenario_resolver 0x1800 = None"
    by (simp_all add: scenario_resolver_def)
  have g: "is_in_heap_region small_malloc_resolver 0x9000"
    "malloc_large_lookup small_malloc_resolver 0x9000 = None"
    by (simp_all add: small_malloc_resolver_def)
  have a: "fst (get_stack_region_bounds scenario_resolver 0x1800) =
             lookup_in_priority_order scenario_resolver 0x1800"
    and b: "Malloc_large_lookup 0x1800 \<notin>
              set (snd (get_stack_region_bounds scenario_resolver 0x1800))"
    using h get_stack_region_bounds_dispatch [of scenario_resolver "0x1800"] by blast+
  have c: "get_stack_region_bounds small_malloc_resolver 0x9000 =
             (None, [Is_in_heap_region 0x9000, Malloc_large_lookup 0x9000])"
    using g get_stack_region_bounds_dispatch [of small_malloc_resolver "0x9000"] by simp
  show ?thesis
    using h g(1) a b c by blast
qed

subsection \<open>Errant-stack heuristic\<close>

text \<open>
  C9. With the check enabled, when the bounds of the written address resolve,
  \<open>handle_push_addressable\<close> returns true and marks as unaddressable the range that starts
  one page below the address, or at the start of the region if that is higher, and ends
  before \<open>start_addr\<close>, the first byte being written: no byte from \<open>start_addr\<close> on changes.
  When the bounds do not resolve it returns false and the shadow memory is unchanged.
\<close>

theorem handle_push_addressable_marks_below:
  assumes "check_push s"
  shows "(fst (get_stack_region_bounds r a) = Some (stack_start, stack_size) \<longrightarrow>
            fst (handle_push_addressable r a start_addr s) \<and>
            shadow (snd (handle_push_addressable r a start_addr s)) =
              shadow_set_range (max (a - PAGE_SIZE r) stack_start) start_addr
                SHADOW_UNADDRESSABLE (shadow s) \<and>
            (PAGE_SIZE r \<le> a \<longrightarrow>
               unat (max (a - PAGE_SIZE r) stack_start) =
                 max (unat a - unat (PAGE_SIZE r)) (unat stack_start)) \<and>
            (\<forall>x. start_addr \<le> x \<longrightarrow>
               shadow (snd (handle_push_addressable r a start_addr s)) x = shadow s x)) \<and>
         (fst (get_stack_region_bounds r a) = None \<longrightarrow>
            \<not> fst (handle_push_addressable r a start_addr s) \<and>
            shadow (snd (handle_push_addressable r a start_addr s)) = shadow s)"
proof (intro conjI impI)
  assume b: "fst (get_stack_region_bounds r a) = Some (stack_start, stack_size)"
  note res = handle_push_addressable_resolved [OF assms b, of start_addr]
  show "fst (handle_push_addressable r a start_addr s)"
    using res by simp
  show "shadow (snd (handle_push_addressable r a start_addr s)) =
          shadow_set_range (max (a - PAGE_SIZE r) stack_start) start_addr
            SHADOW_UNADDRESSABLE (shadow s)"
    using res by simp
  show "\<forall>x. start_addr \<le> x \<longrightarrow>
          shadow (snd (handle_push_addressable r a start_addr s)) x = shadow s x"
    using res by (auto simp add: shadow_set_range_def)
next
  assume "PAGE_SIZE r \<le> a"
  then show "unat (max (a - PAGE_SIZE r) stack_start) =
             max (unat a - unat (PAGE_SIZE r)) (unat stack_start)"
    by (rule unat_max_sub)
next
  assume n: "fst (get_stack_region_bounds r a) = None"
  note un = handle_push_addressable_unresolved [OF assms n, of start_addr]
  show "\<not> fst (handle_push_addressable r a start_addr s)"
    using un by simp
  show "shadow (snd (handle_push_addressable r a start_addr s)) = shadow s"
    using un by simp
qed

theorem handle_push_addressable_marks_below_witness:
  "check_push scenario_state \<and>
   fst (get_stack_region_bounds scenario_resolver 0x1800) = Some (0xF00, 0x1100) \<and>
   PAGE_SIZE scenario_resolver \<le> 0x1800 \<and>
   fst (handle_push_addressable scenario_resolver 0x1800 0x17FC scenario_state) \<and>
   shadow (snd (handle_push_addressable scenario_resolver 0x1800 0x17FC scenario_state)) 0xF00
     = SHADOW_UNADDRESSABLE \<and>
   shadow (snd (handle_push_addressable scenario_resolver 0x1800 0x17FC scenario_state)) 0x17FB
     = SHADOW_UNADDRESSABLE \<and>
   shadow (snd (handle_push_addressable scenario_resolver 0x1800 0x17FC scenario_state)) 0x17FC
     = SHADOW_DEFINED \<and>
   fst (get_stack_region_bounds scenario_resolver 0x5000) = None \<and>
   \<not> fst (handle_push_addressable scenario_resolver 0x5000 0x4FFC scenario_state) \<and>
   shadow (snd (handle_push_addressable scenario_resolver 0x5000 0x4FFC scenario_state)) =
     shadow scenario_state"
proof -
  have h: "check_push scenario_state"
    by (simp add: scenario_state_def)
  have b1: "fst (get_stack_region_bounds scenario_resolver 0x1800) = Some (0xF00, 0x1100)"
    by (simp add: get_stack_region_bounds_def scenario_resolver_def)
  have b2: "fst (get_stack_region_bounds scenario_resolver 0x5000) = None"
    by (simp add: get_stack_region_bounds_def scenario_resolver_def)
  have p: "PAGE_SIZE scenario_resolver \<le> 0x1800"
    by (simp add: scenario_resolver_def)
  have sh: "shadow scenario_state 0x17FC = SHADOW_DEFINED"
    by (simp add: scenario_state_def)
  have m: "max (0x1800 - PAGE_SIZE scenario_resolver) (0xF00 :: 32 word) = 0xF00"
    by (simp add: scenario_resolver_def max_def)
  show ?thesis
    using h b1 b2 p sh
      handle_push_addressable_marks_below [OF h, of scenario_resolver "0x1800" "0xF00" "0x1100" "0x17FC"]
      handle_push_addressable_marks_below [OF h, of scenario_resolver "0x5000" "0xF00" "0x1100" "0x4FFC"]
    by (simp add: m shadow_set_range_def)
qed

subsection \<open>Runtime patcher\<close>




subsection \<open>Threshold sizing policy\<close>

text \<open>
  C7. When a region's size becomes known and the threshold is at or above its floor (the
  invariant of the data model), \<open>check_stack_size_vs_threshold\<close> leaves a threshold of
  \<open>MIN_SWAP_THRESHOLD\<close> if the size is below the current threshold, whatever the size is,
  and leaves the threshold as it was otherwise.
\<close>

theorem check_stack_size_vs_threshold_floor:
  assumes "MIN_SWAP_THRESHOLD \<le> stack_swap_threshold s"
  shows "stack_swap_threshold (check_stack_size_vs_threshold stack_size s) =
           (if stack_size < stack_swap_threshold s then MIN_SWAP_THRESHOLD
            else stack_swap_threshold s)"
proof (cases "MIN_SWAP_THRESHOLD < stack_swap_threshold s")
  case True
  then show ?thesis
    by (simp add: check_stack_size_vs_threshold_def update_stack_swap_threshold_def)
next
  case False
  with assms have "stack_swap_threshold s = MIN_SWAP_THRESHOLD"
    by simp
  then show ?thesis
    by (simp add: check_stack_size_vs_threshold_def)
qed

text \<open>The scenario of the spec: a region of size 1024 is discovered while the threshold is 4096.\<close>

theorem check_stack_size_vs_threshold_floor_witness:
  "MIN_SWAP_THRESHOLD \<le> stack_swap_threshold scenario_state \<and>
   stack_swap_threshold (check_stack_size_vs_threshold 1024 scenario_state) = 2048"
proof -
  have h: "MIN_SWAP_THRESHOLD \<le> stack_swap_threshold scenario_state"
    by (simp add: MIN_SWAP_THRESHOLD_def scenario_state_def)
  show ?thesis
    using h check_stack_size_vs_threshold_floor [OF h, of 1024]
    by (simp add: MIN_SWAP_THRESHOLD_def scenario_state_def)
qed

end
